theory Spec2Isabelle
  imports Complex_Main
begin

section \<open>Numbers and vectors of the engine\<close>

text \<open>
  The movement component computes in \<^verbatim>\<open>float\<close> and \<^verbatim>\<open>double\<close>. Both are
  modelled as \<^typ>\<open>real\<close>: every cast between them is the identity and no rounding
  happens. The claims below are about the control flow and the algebra of the code, and
  are stated for this idealised arithmetic.

  The vector type and the helpers of \<^verbatim>\<open>FMath\<close> and \<^verbatim>\<open>FVector\<close> belong
  to the engine the repository is compiled against; the definitions of this section
  give them the meaning the engine documents for them.
\<close>

datatype FVector = FVector (X: real) (Y: real) (Z: real)

instantiation FVector :: ab_group_add
begin

definition zero_FVector_def: "0 = FVector 0 0 0"

definition plus_FVector_def: "a + b = FVector (X a + X b) (Y a + Y b) (Z a + Z b)"

definition minus_FVector_def: "a - b = FVector (X a - X b) (Y a - Y b) (Z a - Z b)"

definition uminus_FVector_def: "- a = FVector (- X a) (- Y a) (- Z a)"

instance
  by standard
    (simp_all add: zero_FVector_def plus_FVector_def minus_FVector_def uminus_FVector_def
      FVector.expand)

end

instantiation FVector :: real_vector
begin

definition scaleR_FVector_def: "scaleR c a = FVector (c * X a) (c * Y a) (c * Z a)"

instance
  by standard
    (simp_all add: scaleR_FVector_def plus_FVector_def FVector.expand algebra_simps)

end

definition KINDA_SMALL_NUMBER :: real where
  "KINDA_SMALL_NUMBER = 1 / 10000"

definition SMALL_NUMBER :: real where
  "SMALL_NUMBER = 1 / 100000000"

definition MIN_TICK_TIME :: real where
  "MIN_TICK_TIME = 1 / 1000000"

definition MAX_FLOOR_DIST :: real where
  "MAX_FLOOR_DIST = 24 / 10"

definition MIN_FLOOR_DIST :: real where
  "MIN_FLOOR_DIST = 19 / 10"

definition SWEEP_EDGE_REJECT_DISTANCE :: real where
  "SWEEP_EDGE_REJECT_DISTANCE = 15 / 100"

definition FMath_Clamp :: "real \<Rightarrow> real \<Rightarrow> real \<Rightarrow> real" where
  "FMath_Clamp x lo hi = max (min x hi) lo"

definition FMath_Square :: "real \<Rightarrow> real" where
  "FMath_Square x = x * x"

definition FMath_Lerp :: "real \<Rightarrow> real \<Rightarrow> real \<Rightarrow> real" where
  "FMath_Lerp a b alpha = a + alpha * (b - a)"

definition FMath_IsNearlyZero :: "real \<Rightarrow> bool" where
  "FMath_IsNearlyZero x = (\<bar>x\<bar> \<le> SMALL_NUMBER)"

definition FMath_IsNearlyEqual :: "real \<Rightarrow> real \<Rightarrow> bool" where
  "FMath_IsNearlyEqual a b = (\<bar>a - b\<bar> \<le> SMALL_NUMBER)"

definition FMath_InvSqrt :: "real \<Rightarrow> real" where
  "FMath_InvSqrt x = 1 / sqrt x"

text \<open>\<^verbatim>\<open>A | B\<close>, the dot product.\<close>

definition DotProduct :: "FVector \<Rightarrow> FVector \<Rightarrow> real" where
  "DotProduct a b = X a * X b + Y a * Y b + Z a * Z b"

definition SizeSquared :: "FVector \<Rightarrow> real" where
  "SizeSquared v = X v * X v + Y v * Y v + Z v * Z v"

definition Size :: "FVector \<Rightarrow> real" where
  "Size v = sqrt (SizeSquared v)"

definition SizeSquared2D :: "FVector \<Rightarrow> real" where
  "SizeSquared2D v = X v * X v + Y v * Y v"

definition Size2D :: "FVector \<Rightarrow> real" where
  "Size2D v = sqrt (SizeSquared2D v)"

definition IsNearlyZero :: "FVector \<Rightarrow> real \<Rightarrow> bool" where
  "IsNearlyZero v Tolerance =
     (\<bar>X v\<bar> \<le> Tolerance \<and> \<bar>Y v\<bar> \<le> Tolerance \<and> \<bar>Z v\<bar> \<le> Tolerance)"

definition GetSafeNormal :: "FVector \<Rightarrow> FVector" where
  "GetSafeNormal v =
     (let SquareSum = SizeSquared v in
      if SquareSum = 1 then v
      else if SquareSum < SMALL_NUMBER then 0
      else FMath_InvSqrt SquareSum *\<^sub>R v)"

definition GetSafeNormal2D :: "FVector \<Rightarrow> FVector" where
  "GetSafeNormal2D v =
     (let SquareSum = SizeSquared2D v in
      if SquareSum = 1 then (if Z v = 0 then v else FVector (X v) (Y v) 0)
      else if SquareSum < SMALL_NUMBER then 0
      else (let Scale = FMath_InvSqrt SquareSum in FVector (X v * Scale) (Y v * Scale) 0))"

definition GetClampedToMaxSize2D :: "FVector \<Rightarrow> real \<Rightarrow> FVector" where
  "GetClampedToMaxSize2D v MaxSize =
     (if MaxSize < KINDA_SMALL_NUMBER then FVector 0 0 (Z v)
      else (let VSq = SizeSquared2D v in
        if VSq > FMath_Square MaxSize
        then (let Scale = MaxSize * FMath_InvSqrt VSq in FVector (X v * Scale) (Y v * Scale) (Z v))
        else v))"

definition GetClampedToSize :: "FVector \<Rightarrow> real \<Rightarrow> real \<Rightarrow> FVector" where
  "GetClampedToSize v MinSize MaxSize =
     (let VecSize = Size v;
          VecDir = (if VecSize > SMALL_NUMBER then (1 / VecSize) *\<^sub>R v else 0)
      in FMath_Clamp VecSize MinSize MaxSize *\<^sub>R VecDir)"

definition ProjectOnToNormal :: "FVector \<Rightarrow> FVector \<Rightarrow> FVector" where
  "ProjectOnToNormal v Normal = DotProduct v Normal *\<^sub>R Normal"

definition VectorPlaneProject :: "FVector \<Rightarrow> FVector \<Rightarrow> FVector" where
  "VectorPlaneProject v PlaneNormal = v - ProjectOnToNormal v PlaneNormal"

text \<open>\<^verbatim>\<open>FVector::Normalize\<close> leaves a vector shorter than the tolerance as it is.\<close>

definition Normalize :: "FVector \<Rightarrow> FVector" where
  "Normalize v =
     (let SquareSum = SizeSquared v in
      if SquareSum > SMALL_NUMBER then FMath_InvSqrt SquareSum *\<^sub>R v else v)"

definition CosineAngle2D :: "FVector \<Rightarrow> FVector \<Rightarrow> real" where
  "CosineAngle2D a b =
     DotProduct (Normalize (FVector (X a) (Y a) 0)) (Normalize (FVector (X b) (Y b) 0))"

lemma FVector_sel_simps [simp]:
  "X (a + b) = X a + X b" "Y (a + b) = Y a + Y b" "Z (a + b) = Z a + Z b"
  "X (a - b) = X a - X b" "Y (a - b) = Y a - Y b" "Z (a - b) = Z a - Z b"
  "X (- a) = - X a" "Y (- a) = - Y a" "Z (- a) = - Z a"
  "X (c *\<^sub>R a) = c * X a" "Y (c *\<^sub>R a) = c * Y a" "Z (c *\<^sub>R a) = c * Z a"
  "X (0::FVector) = 0" "Y (0::FVector) = 0" "Z (0::FVector) = 0"
  by (simp_all add: zero_FVector_def plus_FVector_def minus_FVector_def uminus_FVector_def
      scaleR_FVector_def)


section \<open>State of the movement component\<close>

datatype EMovementMode =
  MOVE_None | MOVE_Walking | MOVE_NavWalking | MOVE_Falling | MOVE_Swimming | MOVE_Flying
  | MOVE_Custom

record FHitResult =
  bBlockingHit :: bool
  bStartPenetrating :: bool
  Time :: real
  Location :: FVector
  ImpactPoint :: FVector
  Normal :: FVector
  ImpactNormal :: FVector

text \<open>
  The members of \<^verbatim>\<open>UPBPlayerMovement\<close>, of its owning
  \<^verbatim>\<open>APBPlayerCharacter\<close> and of the owner's capsule that the functions
  below write.
\<close>

record PBState =
  Velocity :: FVector
  Acceleration :: FVector
  AnalogInputModifier :: real
  MaxStepHeight :: real
  WalkableFloorZ :: real
  SurfaceFriction :: real
  MovementMode :: EMovementMode
  bHasDeferredMovementMode :: bool
  DeferredMovementMode :: EMovementMode
  bBrakingWindowElapsed :: bool
  BrakingWindowTimeElapsed :: real
  bCrouchFrameTolerated :: bool
  bIsInCrouchTransition :: bool
  bWantsToCrouch :: bool
  bOnLadder :: bool
  bCheatFlying :: bool
  bForceNextFloorCheck :: bool
  bShrinkProxyCapsule :: bool
  NumJumpApexAttempts :: int
  bIsCrouched :: bool
  bIsSprinting :: bool
  bWantsToWalk :: bool
  LastJumpBoostTime :: real
  CapsuleHalfHeight :: real
  CapsuleRadius :: real
  ComponentLocation :: FVector

text \<open>The tunables: members that are set up once and that no function below writes.\<close>

record PBConfig =
  BrakingFrictionFactor :: real
  BrakingSubStepTime :: real
  BrakingFriction :: real
  bUseSeparateBrakingFriction :: bool
  BrakingWindow :: real
  MaxAcceleration :: real
  WalkSpeed :: real
  RunSpeed :: real
  SprintSpeed :: real
  MaxWalkSpeedCrouched :: real
  MinAnalogWalkSpeed :: real
  bForceMaxAccel :: bool
  AxisSpeedLimit :: real
  AirSpeedCap :: real
  GroundAccelerationMultiplier :: real
  AirAccelerationMultiplier :: real
  DefaultStepHeight :: real
  DefaultWalkableFloorZ :: real
  MinStepHeight :: real
  SpeedMultMin :: real
  SpeedMultMax :: real
  BounceMultiplier :: real
  bConstrainToPlane :: bool
  PlaneConstraintNormal :: FVector
  bUseFlatBaseForFloorChecks :: bool
  GroundUncrouchCheckFactor :: real
  bCrouchMaintainsBaseLocation :: bool
  CrouchedHalfHeight :: real
  MaxJumpApexAttemptsPerSimulation :: int
  MaxJumpTime :: real

text \<open>
  What the engine, the world and the console answer while a function runs: validity of
  the component, collision queries, the clock, console variables and the default
  (standing) capsule of the character class.
\<close>

record PBEnv =
  HasValidData :: bool
  HasAnimRootMotion :: bool
  IsSimulatedProxy :: bool
  bWasSimulatingRootMotion :: bool
  IsSimulatingPhysics :: bool
  CanCrouchInCurrentState :: bool
  ForwardVector :: FVector
  ActorForwardVector :: FVector
  ControlRotationVector :: FVector
  GravityZ :: real
  DeltaSeconds :: real
  TimeSeconds :: real
  CVarJumpBoost :: int
  CVarBunnyhop :: int
  DefaultCapsuleHalfHeight :: real
  DefaultCapsuleRadius :: real
  ShapeScale :: real
  CurrentFloor_bBlockingHit :: bool
  CurrentFloor_FloorDist :: real
  FindFloor_IsWalkableFloor :: "FVector \<Rightarrow> FHitResult \<Rightarrow> bool"
  OverlapBlockingTest :: "FVector \<Rightarrow> real \<Rightarrow> real \<Rightarrow> bool"
  Super_HandleSlopeBoosting ::
    "FVector \<Rightarrow> FVector \<Rightarrow> real \<Rightarrow> FVector \<Rightarrow> FHitResult \<Rightarrow> FVector"

definition IsMovingOnGround :: "PBState \<Rightarrow> bool" where
  "IsMovingOnGround s = (MovementMode s = MOVE_Walking \<or> MovementMode s = MOVE_NavWalking)"

definition IsFalling :: "PBState \<Rightarrow> bool" where
  "IsFalling s = (MovementMode s = MOVE_Falling)"

definition IsCrouching :: "PBState \<Rightarrow> bool" where
  "IsCrouching s = bIsCrouched s"

definition GetMaxAcceleration :: "PBConfig \<Rightarrow> real" where
  "GetMaxAcceleration cfg = MaxAcceleration cfg"

definition GetMinAnalogSpeed :: "PBConfig \<Rightarrow> PBState \<Rightarrow> real" where
  "GetMinAnalogSpeed cfg s =
     (case MovementMode s of
        MOVE_Walking \<Rightarrow> MinAnalogWalkSpeed cfg
      | MOVE_NavWalking \<Rightarrow> MinAnalogWalkSpeed cfg
      | MOVE_Falling \<Rightarrow> MinAnalogWalkSpeed cfg
      | _ \<Rightarrow> 0)"

definition IsExceedingMaxSpeed :: "PBState \<Rightarrow> real \<Rightarrow> bool" where
  "IsExceedingMaxSpeed s MaxSpeed =
     (let MaxSpeed' = max 0 MaxSpeed;
          MaxSpeedSquared = FMath_Square MaxSpeed';
          OverVelocityPercent = 101 / 100
      in SizeSquared (Velocity s) > MaxSpeedSquared * OverVelocityPercent)"

definition GetMaxSpeed :: "PBConfig \<Rightarrow> PBState \<Rightarrow> real" where
  "GetMaxSpeed cfg s =
     (if bCheatFlying s then (if bIsSprinting s then SprintSpeed cfg else WalkSpeed cfg) * 1.5
      else if bIsSprinting s then
        (if IsCrouching s \<and> bCrouchFrameTolerated s then MaxWalkSpeedCrouched cfg * 1.7
         else SprintSpeed cfg)
      else if bWantsToWalk s then WalkSpeed cfg
      else if IsCrouching s \<and> bCrouchFrameTolerated s then MaxWalkSpeedCrouched cfg
      else RunSpeed cfg)"

section \<open>ApplyVelocityBraking\<close>

text \<open>
  The \<^verbatim>\<open>while\<close> loop of \<^verbatim>\<open>ApplyVelocityBraking\<close>. The first component of
  the result tells whether the loop left the function through its \<^verbatim>\<open>return\<close>
  (velocity snapped to zero), the second is the velocity. \<^verbatim>\<open>MaxTimeStep\<close> is a
  constant of the call, computed here from \<^verbatim>\<open>BrakingSubStepTime\<close> as the source
  does before the loop.
\<close>

lemma BrakingLoop_measure:
  assumes "MIN_TICK_TIME \<le> rt"
  shows "nat \<lceil>(rt - (if FMath_Clamp sst (1 / 75) (1 / 20) < rt
                      then min (FMath_Clamp sst (1 / 75) (1 / 20)) (rt * 0.5) else rt)) * 150\<rceil>
         < nat \<lceil>rt * 150\<rceil>"
proof -
  define M where "M = FMath_Clamp sst (1 / 75) (1 / 20)"
  have M: "1 / 75 \<le> M" by (simp add: M_def FMath_Clamp_def)
  have rt: "0 < rt" using assms by (simp add: MIN_TICK_TIME_def)
  then have pos: "0 < \<lceil>rt * 150\<rceil>" by simp
  show ?thesis
  proof (cases "M < rt")
    case True
    define d where "d = min M (rt * 0.5)"
    have "1 / 150 \<le> d" using M True by (simp add: d_def min_def)
    then have "(rt - d) * 150 \<le> rt * 150 - 1" by (simp add: algebra_simps)
    then have "\<lceil>(rt - d) * 150\<rceil> \<le> \<lceil>rt * 150 - 1\<rceil>" by (rule ceiling_mono)
    then have "\<lceil>(rt - d) * 150\<rceil> < \<lceil>rt * 150\<rceil>" by simp
    then show ?thesis using True pos unfolding M_def [symmetric] d_def [symmetric] by simp
  next
    case False
    then show ?thesis using pos unfolding M_def [symmetric] by simp
  qed
qed

function BrakingLoop ::
  "real \<Rightarrow> real \<Rightarrow> real \<Rightarrow> FVector \<Rightarrow> FVector \<Rightarrow> real \<Rightarrow> FVector \<Rightarrow> bool \<times> FVector"
where
  "BrakingLoop SubStepTime Friction BrakingDeceleration RevAccel OldVel RemainingTime Vel =
     (if RemainingTime \<ge> MIN_TICK_TIME then
        (let MaxTimeStep = FMath_Clamp SubStepTime (1 / 75) (1 / 20);
             Delta = (if RemainingTime > MaxTimeStep then min MaxTimeStep (RemainingTime * 0.5)
                      else RemainingTime);
             Vel' = Vel + Delta *\<^sub>R ((Friction * BrakingDeceleration) *\<^sub>R RevAccel)
         in if DotProduct Vel' OldVel \<le> 0 then (True, 0)
            else BrakingLoop SubStepTime Friction BrakingDeceleration RevAccel OldVel
                   (RemainingTime - Delta) Vel')
      else (False, Vel))"
  by pat_completeness auto
termination
proof (relation "measure (\<lambda>(sst, f, bd, ra, ov, rt, v). nat \<lceil>rt * 150\<rceil>)", goal_cases)
  case 1
  show ?case by simp
next
  case (2 SubStepTime Friction BrakingDeceleration RevAccel OldVel RemainingTime Vel x xa xb)
  show ?case
    using BrakingLoop_measure [OF 2(1), of SubStepTime] unfolding 2(2,3) by simp
qed

declare BrakingLoop.simps [simp del]

definition ApplyVelocityBraking ::
  "PBEnv \<Rightarrow> PBConfig \<Rightarrow> real \<Rightarrow> real \<Rightarrow> real \<Rightarrow> PBState \<Rightarrow> PBState"
where
  "ApplyVelocityBraking env cfg DeltaTime Friction0 BrakingDeceleration0 s =
     (if IsNearlyZero (Velocity s) 0.1 \<or> \<not> HasValidData env \<or> HasAnimRootMotion env
           \<or> DeltaTime < MIN_TICK_TIME
      then s
      else
        (let Speed = Size2D (Velocity s);
             FrictionFactor = max 0 (BrakingFrictionFactor cfg);
             Friction = max 0 (Friction0 * FrictionFactor);
             BrakingDeceleration = max 0 (max BrakingDeceleration0 Speed);
             bZeroFriction = FMath_IsNearlyZero Friction;
             bZeroBraking = (BrakingDeceleration = 0)
         in if bZeroFriction \<or> bZeroBraking then s
            else
              (let OldVel = Velocity s;
                   RevAccel = - GetSafeNormal (Velocity s);
                   r = BrakingLoop (BrakingSubStepTime cfg) Friction BrakingDeceleration RevAccel
                         OldVel DeltaTime (Velocity s)
               in if fst r then s\<lparr>Velocity := snd r\<rparr>
                  else if IsNearlyZero (snd r) KINDA_SMALL_NUMBER then s\<lparr>Velocity := 0\<rparr>
                  else s\<lparr>Velocity := snd r\<rparr>)))"

lemma GetSafeNormal_eq:
  assumes "SMALL_NUMBER \<le> SizeSquared v"
  shows "GetSafeNormal v = (1 / Size v) *\<^sub>R v"
  using assms by (auto simp: GetSafeNormal_def Let_def Size_def FMath_InvSqrt_def FVector.expand)

lemma GetSafeNormal_small:
  assumes "SizeSquared v < SMALL_NUMBER"
  shows "GetSafeNormal v = 0"
  using assms by (auto simp: GetSafeNormal_def Let_def SMALL_NUMBER_def)

lemma SizeSquared_nonneg: "0 \<le> SizeSquared v"
  by (simp add: SizeSquared_def)

lemma DotProduct_scaleR_left: "DotProduct (k *\<^sub>R v) w = k * DotProduct v w"
  by (simp add: DotProduct_def algebra_simps)

lemma DotProduct_self: "DotProduct v v = SizeSquared v"
  by (simp add: DotProduct_def SizeSquared_def)

lemma FMath_Clamp_lower: "lo \<le> FMath_Clamp x lo hi"
  by (simp add: FMath_Clamp_def)

lemma BrakingLoop_Delta_bounds:
  fixes rt M :: real
  assumes "MIN_TICK_TIME \<le> rt" "1 / 75 \<le> M"
  defines "d \<equiv> (if M < rt then min M (rt * 0.5) else rt)"
  shows "0 < d" "d \<le> rt" "MIN_TICK_TIME \<le> rt - d \<or> rt - d = 0"
proof -
  have rt: "0 < rt" using assms(1) by (simp add: MIN_TICK_TIME_def)
  show "0 < d" using assms(2) rt by (simp add: d_def min_def)
  show "d \<le> rt" using assms(2) rt by (simp add: d_def min_def)
  show "MIN_TICK_TIME \<le> rt - d \<or> rt - d = 0"
    using assms(2) rt by (auto simp: d_def min_def MIN_TICK_TIME_def)
qed

lemma BrakingLoop_scaled:
  assumes "0 \<le> a" "Vel = k *\<^sub>R OldVel" "0 \<le> k"
    and "(F * BD) *\<^sub>R RevAccel = (- a) *\<^sub>R OldVel"
  shows "\<exists>k'. 0 \<le> k' \<and> k' \<le> k \<and> snd (BrakingLoop sst F BD RevAccel OldVel rt Vel) = k' *\<^sub>R OldVel"
  using assms
proof (induction sst F BD RevAccel OldVel rt Vel arbitrary: k rule: BrakingLoop.induct)
  case (1 sst F BD RevAccel OldVel rt Vel)
  show ?case
  proof (cases "MIN_TICK_TIME \<le> rt")
    case False
    then show ?thesis using 1(3,4) by (subst BrakingLoop.simps) auto
  next
    case True
    define M where "M = FMath_Clamp sst (1 / 75) (1 / 20)"
    define d where "d = (if M < rt then min M (rt * 0.5) else rt)"
    define Vel' where "Vel' = Vel + d *\<^sub>R ((F * BD) *\<^sub>R RevAccel)"
    have M: "1 / 75 \<le> M" unfolding M_def by (rule FMath_Clamp_lower)
    have d: "0 < d" unfolding d_def using BrakingLoop_Delta_bounds(1) [OF True M] .
    have Vel': "Vel' = (k - d * a) *\<^sub>R OldVel"
      unfolding Vel'_def 1(5) 1(3) by (simp add: FVector.expand algebra_simps)
    have unfold: "BrakingLoop sst F BD RevAccel OldVel rt Vel =
        (if DotProduct Vel' OldVel \<le> 0 then (True, 0)
         else BrakingLoop sst F BD RevAccel OldVel (rt - d) Vel')"
      using True by (subst BrakingLoop.simps) (simp add: Let_def M_def d_def Vel'_def)
    show ?thesis
    proof (cases "DotProduct Vel' OldVel \<le> 0")
      case dot: True
      have "snd (BrakingLoop sst F BD RevAccel OldVel rt Vel) = 0 *\<^sub>R OldVel"
        using dot unfold by (simp add: FVector.expand)
      then show ?thesis using 1(4) by blast
    next
      case dot: False
      then have "0 < (k - d * a) * SizeSquared OldVel"
        by (simp add: Vel' DotProduct_scaleR_left DotProduct_self)
      then have k1: "0 \<le> k - d * a"
        using SizeSquared_nonneg [of OldVel] by (simp add: zero_less_mult_iff)
      have "\<exists>k'. 0 \<le> k' \<and> k' \<le> k - d * a \<and>
          snd (BrakingLoop sst F BD RevAccel OldVel (rt - d) Vel') = k' *\<^sub>R OldVel"
        using "1.IH" [OF True M_def d_def Vel'_def dot 1(2) Vel' k1 1(5)] .
      then obtain k' where "0 \<le> k'" "k' \<le> k - d * a"
        "snd (BrakingLoop sst F BD RevAccel OldVel (rt - d) Vel') = k' *\<^sub>R OldVel" by blast
      moreover have "k - d * a \<le> k" using d 1(2) by simp
      ultimately show ?thesis using dot unfold by auto
    qed
  qed
qed





definition ConstructorConfig :: PBConfig where
  "ConstructorConfig =
     \<lparr> BrakingFrictionFactor = 1, BrakingSubStepTime = 0.015, BrakingFriction = 4,
       bUseSeparateBrakingFriction = False, BrakingWindow = 15, MaxAcceleration = 857.25,
       WalkSpeed = 285.75, RunSpeed = 361.9, SprintSpeed = 609.6,
       MaxWalkSpeedCrouched = 361.9 * (1 / 3), MinAnalogWalkSpeed = 0, bForceMaxAccel = False,
       AxisSpeedLimit = 6667.5, AirSpeedCap = 57.15, GroundAccelerationMultiplier = 10,
       AirAccelerationMultiplier = 10, DefaultStepHeight = 34.29, DefaultWalkableFloorZ = 0.7,
       MinStepHeight = 10, SpeedMultMin = 609.6 * 1.7, SpeedMultMax = 609.6 * 2.5,
       BounceMultiplier = 0, bConstrainToPlane = False, PlaneConstraintNormal = FVector 0 0 1,
       bUseFlatBaseForFloorChecks = True, GroundUncrouchCheckFactor = 0.75,
       bCrouchMaintainsBaseLocation = False, CrouchedHalfHeight = 34.29,
       MaxJumpApexAttemptsPerSimulation = 2, MaxJumpTime = 4 * 304.8 / (3 * 1143) \<rparr>"

definition ConstructorState :: PBState where
  "ConstructorState =
     \<lparr> Velocity = 0, Acceleration = 0, AnalogInputModifier = 1, MaxStepHeight = 34.29,
       WalkableFloorZ = 0.7, SurfaceFriction = 1, MovementMode = MOVE_Walking,
       bHasDeferredMovementMode = False, DeferredMovementMode = MOVE_None,
       bBrakingWindowElapsed = True, BrakingWindowTimeElapsed = 0,
       bCrouchFrameTolerated = False, bIsInCrouchTransition = False, bWantsToCrouch = False,
       bOnLadder = False, bCheatFlying = False, bForceNextFloorCheck = False,
       bShrinkProxyCapsule = False, NumJumpApexAttempts = 0, bIsCrouched = False,
       bIsSprinting = False, bWantsToWalk = False, LastJumpBoostTime = 0,
       CapsuleHalfHeight = 68.58, CapsuleRadius = 30.48, ComponentLocation = 0 \<rparr>"

definition ExampleEnv :: PBEnv where
  "ExampleEnv =
     \<lparr> HasValidData = True, HasAnimRootMotion = False, IsSimulatedProxy = False,
       bWasSimulatingRootMotion = False, IsSimulatingPhysics = False,
       CanCrouchInCurrentState = True, ForwardVector = FVector 1 0 0,
       ActorForwardVector = FVector 1 0 0, ControlRotationVector = FVector 1 0 0,
       GravityZ = - 1143, DeltaSeconds = 1 / 60, TimeSeconds = 10, CVarJumpBoost = 1,
       CVarBunnyhop = 0, DefaultCapsuleHalfHeight = 68.58, DefaultCapsuleRadius = 30.48,
       ShapeScale = 1, CurrentFloor_bBlockingHit = True, CurrentFloor_FloorDist = 1.9,
       FindFloor_IsWalkableFloor = (\<lambda>loc hit. True),
       OverlapBlockingTest = (\<lambda>loc radius halfheight. False),
       Super_HandleSlopeBoosting = (\<lambda>SlideResult Delta t n hit. SlideResult) \<rparr>"

lemma GetSafeNormal_scaled: "\<exists>c. 0 \<le> c \<and> GetSafeNormal v = c *\<^sub>R v"
proof (cases "SizeSquared v = 1")
  case True
  then have "GetSafeNormal v = 1 *\<^sub>R v" by (simp add: GetSafeNormal_def)
  then show ?thesis by (metis zero_le_one)
next
  case ne: False
  show ?thesis
  proof (cases "SizeSquared v < SMALL_NUMBER")
    case True
    then have "GetSafeNormal v = 0 *\<^sub>R v" using ne by (simp add: GetSafeNormal_def)
    then show ?thesis by (metis order_refl)
  next
    case False
    then have "GetSafeNormal v = FMath_InvSqrt (SizeSquared v) *\<^sub>R v"
      using ne by (simp add: GetSafeNormal_def)
    moreover have "0 \<le> FMath_InvSqrt (SizeSquared v)"
      using SizeSquared_nonneg [of v] by (simp add: FMath_InvSqrt_def)
    ultimately show ?thesis by blast
  qed
qed

lemma ApplyVelocityBraking_unfold:
  fixes env cfg dt F BD s
  defines "Fr \<equiv> max 0 (F * max 0 (BrakingFrictionFactor cfg))"
  defines "Br \<equiv> max 0 (max BD (Size2D (Velocity s)))"
  defines "r \<equiv> BrakingLoop (BrakingSubStepTime cfg) Fr Br (- GetSafeNormal (Velocity s))
                  (Velocity s) dt (Velocity s)"
  shows "ApplyVelocityBraking env cfg dt F BD s =
     (if IsNearlyZero (Velocity s) 0.1 \<or> \<not> HasValidData env \<or> HasAnimRootMotion env
           \<or> dt < MIN_TICK_TIME then s
      else if FMath_IsNearlyZero Fr \<or> Br = 0 then s
      else if fst r then s\<lparr>Velocity := snd r\<rparr>
      else if IsNearlyZero (snd r) KINDA_SMALL_NUMBER then s\<lparr>Velocity := 0\<rparr>
      else s\<lparr>Velocity := snd r\<rparr>)"
  by (simp add: ApplyVelocityBraking_def Let_def Fr_def Br_def r_def)

lemma ApplyVelocityBraking_scaled:
  "\<exists>k. 0 \<le> k \<and> k \<le> 1 \<and>
     ApplyVelocityBraking env cfg dt F BD s = s\<lparr>Velocity := k *\<^sub>R Velocity s\<rparr>"
proof -
  define Fr where "Fr = max 0 (F * max 0 (BrakingFrictionFactor cfg))"
  define Br where "Br = max 0 (max BD (Size2D (Velocity s)))"
  define r where "r = BrakingLoop (BrakingSubStepTime cfg) Fr Br (- GetSafeNormal (Velocity s))
                  (Velocity s) dt (Velocity s)"
  note unfold = ApplyVelocityBraking_unfold [of env cfg dt F BD s, folded Fr_def Br_def r_def]
  obtain c where c: "0 \<le> c" "GetSafeNormal (Velocity s) = c *\<^sub>R Velocity s"
    using GetSafeNormal_scaled by blast
  have a: "0 \<le> Fr * Br * c" using c(1) by (simp add: Fr_def Br_def)
  have rev: "(Fr * Br) *\<^sub>R (- GetSafeNormal (Velocity s)) = (- (Fr * Br * c)) *\<^sub>R Velocity s"
    by (simp add: c(2) FVector.expand)
  have one: "Velocity s = 1 *\<^sub>R Velocity s" by simp
  obtain k' where k': "0 \<le> k'" "k' \<le> 1" "snd r = k' *\<^sub>R Velocity s"
    using BrakingLoop_scaled [OF a one _ rev, of "BrakingSubStepTime cfg" dt] unfolding r_def
    by auto
  have id: "s = s\<lparr>Velocity := 1 *\<^sub>R Velocity s\<rparr>" by simp
  have zero: "s\<lparr>Velocity := 0\<rparr> = s\<lparr>Velocity := 0 *\<^sub>R Velocity s\<rparr>"
    by (simp add: FVector.expand zero_FVector_def)
  have "ApplyVelocityBraking env cfg dt F BD s = s
      \<or> ApplyVelocityBraking env cfg dt F BD s = s\<lparr>Velocity := snd r\<rparr>
      \<or> ApplyVelocityBraking env cfg dt F BD s = s\<lparr>Velocity := 0\<rparr>"
    unfolding unfold r_def by simp
  then consider "ApplyVelocityBraking env cfg dt F BD s = s"
    | "ApplyVelocityBraking env cfg dt F BD s = s\<lparr>Velocity := snd r\<rparr>"
    | "ApplyVelocityBraking env cfg dt F BD s = s\<lparr>Velocity := 0\<rparr>"
    by blast
  then show ?thesis
  proof cases
    case 1
    then show ?thesis using id by (metis zero_le_one order_refl)
  next
    case 2
    then show ?thesis using k' by auto
  next
    case 3
    then show ?thesis using zero by (metis zero_le_one order_refl)
  qed
qed






lemma Size2D_axis: "0 \<le> x \<Longrightarrow> Size2D (FVector x 0 0) = x"
  by (simp add: Size2D_def SizeSquared2D_def)

lemma Size_axis: "0 \<le> x \<Longrightarrow> Size (FVector x 0 0) = x"
  by (simp add: Size_def SizeSquared_def)

lemma GetSafeNormal_axis:
  assumes "1 / 10000 \<le> x"
  shows "GetSafeNormal (FVector x 0 0) = FVector 1 0 0"
proof -
  have "(1 / 10000) * (1 / 10000) \<le> x * x" using assms by (intro mult_mono) auto
  then have "SMALL_NUMBER \<le> SizeSquared (FVector x 0 0)"
    by (simp add: SMALL_NUMBER_def SizeSquared_def)
  then have "GetSafeNormal (FVector x 0 0) = (1 / Size (FVector x 0 0)) *\<^sub>R FVector x 0 0"
    by (rule GetSafeNormal_eq)
  then show ?thesis using assms by (simp add: Size_axis FVector.expand)
qed

lemma FVector_eval:
  "FVector a b c + FVector d e f = FVector (a + d) (b + e) (c + f)"
  "FVector a b c - FVector d e f = FVector (a - d) (b - e) (c - f)"
  "- FVector a b c = FVector (- a) (- b) (- c)"
  "k *\<^sub>R FVector a b c = FVector (k * a) (k * b) (k * c)"
  "(0::FVector) = FVector 0 0 0"
  by (simp_all add: FVector.expand)

lemmas braking_eval = FVector_eval
  ApplyVelocityBraking_def Let_def ExampleEnv_def ConstructorConfig_def ConstructorState_def
  IsNearlyZero_def MIN_TICK_TIME_def FMath_IsNearlyZero_def SMALL_NUMBER_def
  KINDA_SMALL_NUMBER_def Size2D_axis Size_axis GetSafeNormal_axis BrakingLoop.simps
  FMath_Clamp_def DotProduct_def






text \<open>
  Claim C6, as amended. \<^verbatim>\<open>ApplyVelocityBraking\<close> is a no-op when its friction
  argument is 0, when the velocity is already nearly zero (every component within 0.1),
  or when its braking deceleration argument is 0 (or negative) and the agent has no
  horizontal speed: the state after the call equals the state before it. A braking
  deceleration of 0 alone does not make the call a no-op, since the deceleration used is
  the larger of the argument and the horizontal speed.
\<close>

theorem ApplyVelocityBraking_noop:
  assumes "Friction = 0 \<or> IsNearlyZero (Velocity s) 0.1
           \<or> (BrakingDeceleration \<le> 0 \<and> Size2D (Velocity s) = 0)"
  shows "ApplyVelocityBraking env cfg DeltaTime Friction BrakingDeceleration s = s"
  using assms
  by (auto simp: ApplyVelocityBraking_def Let_def FMath_IsNearlyZero_def SMALL_NUMBER_def)

theorem ApplyVelocityBraking_noop_witness:
  "ApplyVelocityBraking ExampleEnv ConstructorConfig (1 / 60) 0 190.5
       (ConstructorState\<lparr>Velocity := FVector 300 0 0\<rparr>)
     = ConstructorState\<lparr>Velocity := FVector 300 0 0\<rparr>
   \<and> ApplyVelocityBraking ExampleEnv ConstructorConfig (1 / 60) 4 190.5
       (ConstructorState\<lparr>Velocity := FVector 0.05 0 0\<rparr>)
     = ConstructorState\<lparr>Velocity := FVector 0.05 0 0\<rparr>
   \<and> ApplyVelocityBraking ExampleEnv ConstructorConfig (1 / 60) 4 0
       (ConstructorState\<lparr>Velocity := FVector 0 0 5\<rparr>)
     = ConstructorState\<lparr>Velocity := FVector 0 0 5\<rparr>"
  using ApplyVelocityBraking_noop [where Friction = 0
      and s = "ConstructorState\<lparr>Velocity := FVector 300 0 0\<rparr>"
      and BrakingDeceleration = "190.5" and env = ExampleEnv and cfg = ConstructorConfig
      and DeltaTime = "1 / 60"]
    ApplyVelocityBraking_noop [where Friction = 4
      and s = "ConstructorState\<lparr>Velocity := FVector 0.05 0 0\<rparr>"
      and BrakingDeceleration = "190.5" and env = ExampleEnv and cfg = ConstructorConfig
      and DeltaTime = "1 / 60"]
    ApplyVelocityBraking_noop [where Friction = 4
      and s = "ConstructorState\<lparr>Velocity := FVector 0 0 5\<rparr>"
      and BrakingDeceleration = 0 and env = ExampleEnv and cfg = ConstructorConfig
      and DeltaTime = "1 / 60"]
  by (simp add: IsNearlyZero_def Size2D_def SizeSquared2D_def)

text \<open>
  Claim C6 as stated fails: with a braking deceleration argument of 0, friction 4 and a
  tick of 1/100 s, the velocity (300, 0, 0) becomes (288, 0, 0).
\<close>

theorem ApplyVelocityBraking_zero_decel_counterexample:
  "Velocity (ApplyVelocityBraking ExampleEnv ConstructorConfig (1 / 100) 4 0
       (ConstructorState\<lparr>Velocity := FVector 300 0 0\<rparr>)) = FVector 288 0 0
   \<and> ApplyVelocityBraking ExampleEnv ConstructorConfig (1 / 100) 4 0
       (ConstructorState\<lparr>Velocity := FVector 300 0 0\<rparr>)
     \<noteq> ConstructorState\<lparr>Velocity := FVector 300 0 0\<rparr>"
  by (simp add: braking_eval)

section \<open>CalcVelocity\<close>

text \<open>
  \<^verbatim>\<open>UCharacterMovementComponent::SetWalkableFloorZ\<close> of the engine stores its
  argument clamped to \<open>[0, 1]\<close>.
\<close>

definition SetWalkableFloorZ :: "real \<Rightarrow> PBState \<Rightarrow> PBState" where
  "SetWalkableFloorZ InWalkableFloorZ s = s\<lparr>WalkableFloorZ := FMath_Clamp InWalkableFloorZ 0 1\<rparr>"

text \<open>
  \<^verbatim>\<open>CalcVelocity\<close> is one function in the source; its commented blocks are the
  definitions below, composed in source order by \<open>CalcVelocity\<close>.
\<close>

text \<open>\<^verbatim>\<open>if (bForceMaxAccel) { ... }\<close>\<close>

definition CalcVelocity_ForceMaxAccel :: "PBEnv \<Rightarrow> PBConfig \<Rightarrow> PBState \<Rightarrow> PBState" where
  "CalcVelocity_ForceMaxAccel env cfg s =
     (if bForceMaxAccel cfg then
        (let MaxAccel = GetMaxAcceleration cfg in
         s\<lparr>Acceleration :=
              (if SizeSquared (Acceleration s) > SMALL_NUMBER
               then MaxAccel *\<^sub>R GetSafeNormal (Acceleration s)
               else MaxAccel *\<^sub>R (if SizeSquared (Velocity s) < SMALL_NUMBER then ForwardVector env
                                  else GetSafeNormal (Velocity s))),
            AnalogInputModifier := 1\<rparr>)
      else s)"

text \<open>\<^verbatim>\<open>const bool bIsGroundMove = IsMovingOnGround() && bBrakingWindowElapsed;\<close>\<close>

definition bIsGroundMove :: "PBState \<Rightarrow> bool" where
  "bIsGroundMove s = (IsMovingOnGround s \<and> bBrakingWindowElapsed s)"

text \<open>\<^verbatim>\<open>// Apply friction\<close>: \<^verbatim>\<open>if (bIsGroundMove) { ... }\<close>\<close>

definition CalcVelocity_ApplyFriction ::
  "PBEnv \<Rightarrow> PBConfig \<Rightarrow> real \<Rightarrow> real \<Rightarrow> real \<Rightarrow> real \<Rightarrow> PBState \<Rightarrow> PBState"
where
  "CalcVelocity_ApplyFriction env cfg DeltaTime Friction BrakingDeceleration MaxSpeed s =
     (if bIsGroundMove s then
        (let bVelocityOverMax = IsExceedingMaxSpeed s MaxSpeed;
             OldVelocity = Velocity s;
             ActualBrakingFriction =
               (if bUseSeparateBrakingFriction cfg then BrakingFriction cfg else Friction)
                 * SurfaceFriction s;
             s' = ApplyVelocityBraking env cfg DeltaTime ActualBrakingFriction BrakingDeceleration s
         in if bVelocityOverMax \<and> SizeSquared (Velocity s') < FMath_Square MaxSpeed
                \<and> DotProduct (Acceleration s') OldVelocity > 0
            then s'\<lparr>Velocity := MaxSpeed *\<^sub>R GetSafeNormal OldVelocity\<rparr>
            else s')
      else s)"

text \<open>\<^verbatim>\<open>// Limit before\<close> and \<^verbatim>\<open>// Limit after\<close>\<close>

definition LimitAxisSpeed :: "PBConfig \<Rightarrow> PBState \<Rightarrow> PBState" where
  "LimitAxisSpeed cfg s =
     s\<lparr>Velocity :=
         FVector (FMath_Clamp (X (Velocity s)) (- AxisSpeedLimit cfg) (AxisSpeedLimit cfg))
                 (FMath_Clamp (Y (Velocity s)) (- AxisSpeedLimit cfg) (AxisSpeedLimit cfg))
                 (Z (Velocity s))\<rparr>"

text \<open>\<^verbatim>\<open>// no clip\<close>: \<^verbatim>\<open>if (bCheatFlying) { ... }\<close>\<close>

definition CalcVelocity_NoClip :: "PBEnv \<Rightarrow> PBConfig \<Rightarrow> bool \<Rightarrow> PBState \<Rightarrow> PBState" where
  "CalcVelocity_NoClip env cfg bZeroAcceleration s =
     (if bZeroAcceleration then s\<lparr>Velocity := FVector 0 0 0\<rparr>
      else
        (let LookVec = ControlRotationVector env;
             LookVec2D = FVector (X (ActorForwardVector env)) (Y (ActorForwardVector env)) 0;
             PerpendicularAccel = DotProduct LookVec2D (Acceleration s) *\<^sub>R LookVec2D;
             TangentialAccel = Acceleration s - PerpendicularAccel;
             UnitAcceleration = Acceleration s;
             Dir = CosineAngle2D UnitAcceleration LookVec;
             NoClipAccelClamp =
               (if bIsSprinting s then 2 * MaxAcceleration cfg else MaxAcceleration cfg)
         in s\<lparr>Velocity :=
               GetClampedToSize ((Dir * Size2D PerpendicularAccel) *\<^sub>R LookVec + TangentialAccel)
                 NoClipAccelClamp NoClipAccelClamp\<rparr>))"

text \<open>\<^verbatim>\<open>// walk move\<close>: \<^verbatim>\<open>if (!bZeroAcceleration) { ... }\<close>\<close>

definition CalcVelocity_WalkMove ::
  "PBConfig \<Rightarrow> real \<Rightarrow> real \<Rightarrow> bool \<Rightarrow> bool \<Rightarrow> PBState \<Rightarrow> PBState"
where
  "CalcVelocity_WalkMove cfg DeltaTime MaxSpeed bZeroAcceleration bGroundMove s =
     (if \<not> bZeroAcceleration then
        (let s1 = s\<lparr>Acceleration := GetClampedToMaxSize2D (Acceleration s) MaxSpeed\<rparr>;
             AccelDir = GetSafeNormal2D (Acceleration s1);
             Veer = X (Velocity s1) * X AccelDir + Y (Velocity s1) * Y AccelDir;
             AddSpeed =
               Size2D (if bGroundMove then Acceleration s1
                       else GetClampedToMaxSize2D (Acceleration s1) (AirSpeedCap cfg)) - Veer
         in if AddSpeed > 0 then
              (let AccelerationMultiplier =
                     (if bGroundMove then GroundAccelerationMultiplier cfg
                      else AirAccelerationMultiplier cfg);
                   CurrentAcceleration =
                     GetClampedToMaxSize2D
                       ((AccelerationMultiplier * SurfaceFriction s1 * DeltaTime) *\<^sub>R Acceleration s1)
                       AddSpeed
               in s1\<lparr>Velocity := Velocity s1 + CurrentAcceleration\<rparr>)
            else s1)
      else s)"

text \<open>\<^verbatim>\<open>// Dynamic step height code for allowing sliding on a slope when at a high speed\<close>\<close>

definition CalcVelocity_StepHeight :: "PBConfig \<Rightarrow> PBState \<Rightarrow> PBState" where
  "CalcVelocity_StepHeight cfg s =
     (let SpeedSq = SizeSquared2D (Velocity s) in
      if bOnLadder s \<or> SpeedSq \<le> MaxWalkSpeedCrouched cfg * MaxWalkSpeedCrouched cfg then
        SetWalkableFloorZ (DefaultWalkableFloorZ cfg) (s\<lparr>MaxStepHeight := DefaultStepHeight cfg\<rparr>)
      else
        (let Speed = sqrt SpeedSq;
             SpeedScale = (Speed - SpeedMultMin cfg) / (SpeedMultMax cfg - SpeedMultMin cfg);
             SpeedMultiplier0 = FMath_Square (FMath_Clamp SpeedScale 0 1);
             SpeedMultiplier =
               (if \<not> IsFalling s then max ((1 - SurfaceFriction s) * SpeedMultiplier0) 0
                else SpeedMultiplier0)
         in SetWalkableFloorZ (FMath_Lerp (DefaultWalkableFloorZ cfg) 0.9848 SpeedMultiplier)
              (s\<lparr>MaxStepHeight :=
                   FMath_Lerp (DefaultStepHeight cfg) (MinStepHeight cfg) SpeedMultiplier\<rparr>)))"

definition CalcVelocity ::
  "PBEnv \<Rightarrow> PBConfig \<Rightarrow> real \<Rightarrow> real \<Rightarrow> bool \<Rightarrow> real \<Rightarrow> PBState \<Rightarrow> PBState"
where
  "CalcVelocity env cfg DeltaTime Friction0 bFluid BrakingDeceleration s =
     (if \<not> HasValidData env \<or> HasAnimRootMotion env \<or> DeltaTime < MIN_TICK_TIME
           \<or> (IsSimulatedProxy env \<and> \<not> bWasSimulatingRootMotion env)
      then s
      else
        (let Friction = max 0 Friction0;
             MaxSpeed0 = GetMaxSpeed cfg s;
             s1 = CalcVelocity_ForceMaxAccel env cfg s;
             MaxSpeed = max (MaxSpeed0 * AnalogInputModifier s1) (GetMinAnalogSpeed cfg s1);
             bZeroAcceleration = IsNearlyZero (Acceleration s1) KINDA_SMALL_NUMBER;
             bGroundMove = bIsGroundMove s1;
             s2 = CalcVelocity_ApplyFriction env cfg DeltaTime Friction BrakingDeceleration MaxSpeed s1;
             s3 = (if bFluid
                   then s2\<lparr>Velocity := (1 - min (Friction * DeltaTime) 1) *\<^sub>R Velocity s2\<rparr>
                   else s2);
             s4 = LimitAxisSpeed cfg s3;
             s5 = (if bCheatFlying s4 then CalcVelocity_NoClip env cfg bZeroAcceleration s4
                   else if bOnLadder s4 then s4
                   else CalcVelocity_WalkMove cfg DeltaTime MaxSpeed bZeroAcceleration bGroundMove s4);
             s6 = LimitAxisSpeed cfg s5
         in CalcVelocity_StepHeight cfg s6))"

section \<open>TickComponent\<close>

text \<open>
  \<^verbatim>\<open>SetMovementMode\<close> belongs to the engine; of its effects the model keeps the
  change of \<^verbatim>\<open>MovementMode\<close>.

  \<open>TickComponent\<close> is the part of \<^verbatim>\<open>UPBPlayerMovement::TickComponent\<close> after
  \<^verbatim>\<open>Super::TickComponent\<close> and \<^verbatim>\<open>PlayMoveSound\<close>: the state it takes is the
  state those calls leave. The on-screen debug messages and the camera roll write nothing
  of the modelled state.
\<close>

definition SetMovementMode :: "EMovementMode \<Rightarrow> PBState \<Rightarrow> PBState" where
  "SetMovementMode NewMovementMode s = s\<lparr>MovementMode := NewMovementMode\<rparr>"

definition TickComponent :: "PBEnv \<Rightarrow> PBConfig \<Rightarrow> real \<Rightarrow> PBState \<Rightarrow> PBState" where
  "TickComponent env cfg DeltaTime s =
     (let s1 = (if bHasDeferredMovementMode s
                then SetMovementMode (DeferredMovementMode s) (s\<lparr>bHasDeferredMovementMode := False\<rparr>)
                else s)
      in if IsSimulatingPhysics env then s1
         else
           (let s2 =
                  (if IsMovingOnGround s1 then
                     (let s' = (if \<not> bBrakingWindowElapsed s1
                                then s1\<lparr>BrakingWindowTimeElapsed :=
                                          BrakingWindowTimeElapsed s1 + DeltaTime * 1000\<rparr>
                                else s1)
                      in if BrakingWindowTimeElapsed s' \<ge> BrakingWindow cfg
                         then s'\<lparr>bBrakingWindowElapsed := True, BrakingWindowTimeElapsed := 0\<rparr>
                         else s')
                   else s1\<lparr>bBrakingWindowElapsed := False, BrakingWindowTimeElapsed := 0\<rparr>)
            in s2\<lparr>bCrouchFrameTolerated := IsCrouching s2\<rparr>))"

section \<open>HandleSlopeBoosting and ComputeSlideVector\<close>

definition VerticalSlopeNormalZ :: real where
  "VerticalSlopeNormalZ = 0.001"

definition JumpVelocity :: real where
  "JumpVelocity = 266.7"

text \<open>
  \<^verbatim>\<open>UMovementComponent::ConstrainNormalToPlane\<close> of the engine projects the normal
  into the constraint plane and renormalises it.
\<close>

definition ConstrainNormalToPlane :: "PBConfig \<Rightarrow> FVector \<Rightarrow> FVector" where
  "ConstrainNormalToPlane cfg N =
     (if bConstrainToPlane cfg then GetSafeNormal (VectorPlaneProject N (PlaneConstraintNormal cfg))
      else N)"

definition HandleSlopeBoosting ::
  "PBEnv \<Rightarrow> PBConfig \<Rightarrow> PBState \<Rightarrow> FVector \<Rightarrow> FVector \<Rightarrow> real \<Rightarrow> FVector \<Rightarrow> FHitResult \<Rightarrow> FVector"
where
  "HandleSlopeBoosting env cfg s SlideResult Delta TimeArg NormalArg Hit =
     (if bOnLadder s \<or> bCheatFlying s
      then Super_HandleSlopeBoosting env SlideResult Delta TimeArg NormalArg Hit
      else
        (let WallAngle = \<bar>Z (ImpactNormal Hit)\<bar>;
             ImpactNormal0 =
               (if WallAngle \<le> VerticalSlopeNormalZ \<or> WallAngle = 1 then NormalArg
                else ImpactNormal Hit);
             ImpactNormal1 =
               (if bConstrainToPlane cfg then ConstrainNormalToPlane cfg ImpactNormal0
                else ImpactNormal0);
             BounceCoefficient = 1 + BounceMultiplier cfg * (1 - SurfaceFriction s)
         in TimeArg *\<^sub>R (Delta - BounceCoefficient *\<^sub>R ProjectOnToNormal Delta ImpactNormal1)))"

text \<open>
  \<^verbatim>\<open>ComputeSlideVector\<close> forwards to the engine: the plane projection of
  \<^verbatim>\<open>UMovementComponent\<close>, then, while falling, the virtual
  \<^verbatim>\<open>HandleSlopeBoosting\<close> above.
\<close>

definition ComputeSlideVector ::
  "PBEnv \<Rightarrow> PBConfig \<Rightarrow> PBState \<Rightarrow> FVector \<Rightarrow> real \<Rightarrow> FVector \<Rightarrow> FHitResult \<Rightarrow> FVector"
where
  "ComputeSlideVector env cfg s Delta TimeArg NormalArg Hit =
     (let Result = TimeArg *\<^sub>R VectorPlaneProject Delta (ConstrainNormalToPlane cfg NormalArg)
      in if IsFalling s then HandleSlopeBoosting env cfg s Result Delta TimeArg NormalArg Hit
         else Result)"




lemma ApplyVelocityBraking_frame:
  "bOnLadder (ApplyVelocityBraking env cfg dt F BD s) = bOnLadder s"
  "bCheatFlying (ApplyVelocityBraking env cfg dt F BD s) = bCheatFlying s"
  "MovementMode (ApplyVelocityBraking env cfg dt F BD s) = MovementMode s"
  "SurfaceFriction (ApplyVelocityBraking env cfg dt F BD s) = SurfaceFriction s"
  "Acceleration (ApplyVelocityBraking env cfg dt F BD s) = Acceleration s"
  using ApplyVelocityBraking_scaled [of env cfg dt F BD s] by auto

lemma CalcVelocity_stage_frame:
  "bOnLadder (CalcVelocity_ForceMaxAccel env cfg s) = bOnLadder s"
  "bCheatFlying (CalcVelocity_ForceMaxAccel env cfg s) = bCheatFlying s"
  "MovementMode (CalcVelocity_ForceMaxAccel env cfg s) = MovementMode s"
  "bOnLadder (CalcVelocity_ApplyFriction env cfg dt F BD ms s) = bOnLadder s"
  "bCheatFlying (CalcVelocity_ApplyFriction env cfg dt F BD ms s) = bCheatFlying s"
  "MovementMode (CalcVelocity_ApplyFriction env cfg dt F BD ms s) = MovementMode s"
  "bOnLadder (LimitAxisSpeed cfg s) = bOnLadder s"
  "bCheatFlying (LimitAxisSpeed cfg s) = bCheatFlying s"
  "MovementMode (LimitAxisSpeed cfg s) = MovementMode s"
  "bOnLadder (CalcVelocity_NoClip env cfg bz s) = bOnLadder s"
  "MovementMode (CalcVelocity_NoClip env cfg bz s) = MovementMode s"
  "bOnLadder (CalcVelocity_WalkMove cfg dt ms bz gm s) = bOnLadder s"
  "MovementMode (CalcVelocity_WalkMove cfg dt ms bz gm s) = MovementMode s"
  "bOnLadder (CalcVelocity_StepHeight cfg s) = bOnLadder s"
  "MovementMode (CalcVelocity_StepHeight cfg s) = MovementMode s"
  "Velocity (CalcVelocity_StepHeight cfg s) = Velocity s"
  by (simp_all add: CalcVelocity_ForceMaxAccel_def CalcVelocity_ApplyFriction_def
      LimitAxisSpeed_def CalcVelocity_NoClip_def CalcVelocity_WalkMove_def
      CalcVelocity_StepHeight_def SetWalkableFloorZ_def Let_def ApplyVelocityBraking_frame)



lemma CalcVelocity_no_ground_braking:
  assumes "\<not> bIsGroundMove s"
  shows "CalcVelocity env cfg dt F False BD s = CalcVelocity env cfg dt F2 False BD2 s"
proof -
  have gm: "\<not> bIsGroundMove (CalcVelocity_ForceMaxAccel env cfg s)"
    using assms
    by (simp add: bIsGroundMove_def IsMovingOnGround_def CalcVelocity_ForceMaxAccel_def Let_def)
  have af: "CalcVelocity_ApplyFriction env cfg dt f bd ms (CalcVelocity_ForceMaxAccel env cfg s)
      = CalcVelocity_ForceMaxAccel env cfg s" for f bd ms
    using gm by (simp add: CalcVelocity_ApplyFriction_def)
  show ?thesis by (simp add: CalcVelocity_def Let_def af)
qed

text \<open>
  Claim C7, as amended. On every tick that is not skipped because the updated component
  is simulating physics, the per-tick update keeps the braking-window invariant: if the
  agent is not moving on ground, the braking window is reset to not-elapsed and its
  accumulated time to 0; the accumulated time changes to a non-zero value only on a tick
  spent grounded with the window not yet elapsed, and then by the tick's delta-time in
  milliseconds; on such a tick the window becomes elapsed (and the accumulated time 0)
  once the accumulated time reaches \<^verbatim>\<open>BrakingWindow\<close>, and a window becomes elapsed
  in no other way; and \<^verbatim>\<open>CalcVelocity\<close> applies ground braking only when the window
  is elapsed: otherwise its friction block leaves the state as it is and its result does
  not depend on the braking friction and deceleration. A tick taken while simulating
  physics returns before the update and leaves the window as it was.
\<close>

theorem TickComponent_braking_window:
  fixes env cfg DeltaTime s
  defines "s' \<equiv> TickComponent env cfg DeltaTime s"
  assumes "\<not> IsSimulatingPhysics env"
  shows "(\<not> IsMovingOnGround s'
            \<longrightarrow> \<not> bBrakingWindowElapsed s' \<and> BrakingWindowTimeElapsed s' = 0)
       \<and> (BrakingWindowTimeElapsed s' \<noteq> BrakingWindowTimeElapsed s
            \<and> BrakingWindowTimeElapsed s' \<noteq> 0
            \<longrightarrow> IsMovingOnGround s' \<and> \<not> bBrakingWindowElapsed s
                \<and> BrakingWindowTimeElapsed s' = BrakingWindowTimeElapsed s + DeltaTime * 1000)
       \<and> (IsMovingOnGround s' \<and> \<not> bBrakingWindowElapsed s
            \<and> BrakingWindow cfg \<le> BrakingWindowTimeElapsed s + DeltaTime * 1000
            \<longrightarrow> bBrakingWindowElapsed s' \<and> BrakingWindowTimeElapsed s' = 0)
       \<and> (bBrakingWindowElapsed s' \<and> \<not> bBrakingWindowElapsed s
            \<longrightarrow> IsMovingOnGround s'
                \<and> BrakingWindow cfg \<le> BrakingWindowTimeElapsed s + DeltaTime * 1000)
       \<and> (\<not> bBrakingWindowElapsed s
            \<longrightarrow> CalcVelocity_ApplyFriction env cfg dt F BD MaxSpeed s = s
                \<and> CalcVelocity env cfg dt F False BD s = CalcVelocity env cfg dt F2 False BD2 s)"
proof -
  have tick: "\<not> IsMovingOnGround s'
            \<longrightarrow> \<not> bBrakingWindowElapsed s' \<and> BrakingWindowTimeElapsed s' = 0"
    using assms(2)
    by (simp add: s'_def TickComponent_def Let_def IsMovingOnGround_def SetMovementMode_def)
  have acc: "BrakingWindowTimeElapsed s' \<noteq> BrakingWindowTimeElapsed s
            \<and> BrakingWindowTimeElapsed s' \<noteq> 0
            \<longrightarrow> IsMovingOnGround s' \<and> \<not> bBrakingWindowElapsed s
                \<and> BrakingWindowTimeElapsed s' = BrakingWindowTimeElapsed s + DeltaTime * 1000"
    using assms(2)
    by (simp add: s'_def TickComponent_def Let_def IsMovingOnGround_def SetMovementMode_def)
  have el: "IsMovingOnGround s' \<and> \<not> bBrakingWindowElapsed s
            \<and> BrakingWindow cfg \<le> BrakingWindowTimeElapsed s + DeltaTime * 1000
            \<longrightarrow> bBrakingWindowElapsed s' \<and> BrakingWindowTimeElapsed s' = 0"
    using assms(2)
    by (simp add: s'_def TickComponent_def Let_def IsMovingOnGround_def SetMovementMode_def)
  have only: "bBrakingWindowElapsed s' \<and> \<not> bBrakingWindowElapsed s
            \<longrightarrow> IsMovingOnGround s'
                \<and> BrakingWindow cfg \<le> BrakingWindowTimeElapsed s + DeltaTime * 1000"
    using assms(2)
    by (simp add: s'_def TickComponent_def Let_def IsMovingOnGround_def SetMovementMode_def)
  have calc: "\<not> bBrakingWindowElapsed s
            \<longrightarrow> CalcVelocity_ApplyFriction env cfg dt F BD MaxSpeed s = s
                \<and> CalcVelocity env cfg dt F False BD s = CalcVelocity env cfg dt F2 False BD2 s"
    using CalcVelocity_no_ground_braking [of s env cfg dt F BD F2 BD2]
    by (simp add: CalcVelocity_ApplyFriction_def bIsGroundMove_def)
  show ?thesis using tick acc el only calc by blast
qed

theorem TickComponent_braking_window_witness:
  "\<not> bBrakingWindowElapsed
       (TickComponent ExampleEnv ConstructorConfig (1 / 60) (ConstructorState\<lparr>MovementMode := MOVE_Falling\<rparr>))
   \<and> BrakingWindowTimeElapsed
       (TickComponent ExampleEnv ConstructorConfig (1 / 60) (ConstructorState\<lparr>MovementMode := MOVE_Falling\<rparr>)) = 0
   \<and> BrakingWindowTimeElapsed
       (TickComponent ExampleEnv ConstructorConfig (1 / 100)
          (ConstructorState\<lparr>bBrakingWindowElapsed := False\<rparr>)) = 10
   \<and> bBrakingWindowElapsed
       (TickComponent ExampleEnv ConstructorConfig (1 / 100)
          (ConstructorState\<lparr>bBrakingWindowElapsed := False, BrakingWindowTimeElapsed := 10\<rparr>))
   \<and> CalcVelocity_ApplyFriction ExampleEnv ConstructorConfig (1 / 100) 4 190.5 361.9
          (ConstructorState\<lparr>bBrakingWindowElapsed := False, Velocity := FVector 300 0 0\<rparr>)
       = ConstructorState\<lparr>bBrakingWindowElapsed := False, Velocity := FVector 300 0 0\<rparr>"
  using TickComponent_braking_window [where env = ExampleEnv and cfg = ConstructorConfig
      and DeltaTime = "1 / 60" and s = "ConstructorState\<lparr>MovementMode := MOVE_Falling\<rparr>"]
    TickComponent_braking_window [where env = ExampleEnv and cfg = ConstructorConfig
      and DeltaTime = "1 / 100" and s = "ConstructorState\<lparr>bBrakingWindowElapsed := False\<rparr>"]
    TickComponent_braking_window [where env = ExampleEnv and cfg = ConstructorConfig
      and DeltaTime = "1 / 100"
      and s = "ConstructorState\<lparr>bBrakingWindowElapsed := False, BrakingWindowTimeElapsed := 10\<rparr>"]
    TickComponent_braking_window [where env = ExampleEnv and cfg = ConstructorConfig
      and DeltaTime = "1 / 100" and dt = "1 / 100" and F = 4 and BD = "190.5" and MaxSpeed = "361.9"
      and s = "ConstructorState\<lparr>bBrakingWindowElapsed := False, Velocity := FVector 300 0 0\<rparr>"]
  by (simp add: TickComponent_def Let_def ExampleEnv_def ConstructorConfig_def
      ConstructorState_def IsMovingOnGround_def)

text \<open>
  Claim C7 as stated fails on a tick taken while the updated component is simulating
  physics: the agent is falling, not moving on ground, and the window set by the
  constructor stays elapsed.
\<close>

theorem TickComponent_simulating_physics_counterexample:
  "\<not> IsMovingOnGround
       (TickComponent (ExampleEnv\<lparr>IsSimulatingPhysics := True\<rparr>) ConstructorConfig (1 / 60)
          (ConstructorState\<lparr>MovementMode := MOVE_Falling\<rparr>))
   \<and> bBrakingWindowElapsed
       (TickComponent (ExampleEnv\<lparr>IsSimulatingPhysics := True\<rparr>) ConstructorConfig (1 / 60)
          (ConstructorState\<lparr>MovementMode := MOVE_Falling\<rparr>))"
  by (simp add: TickComponent_def Let_def ExampleEnv_def ConstructorState_def
      IsMovingOnGround_def)

lemma less_sqrt_of_square:
  fixes m x :: real
  assumes "0 \<le> m" "m * m < x"
  shows "m < sqrt x"
proof -
  have "sqrt (m * m) < sqrt x" using assms(2) by (rule real_sqrt_less_mono)
  then show ?thesis using assms(1) by simp
qed

lemma sqrt_le_of_square:
  fixes m x :: real
  assumes "0 \<le> m" "x \<le> m * m"
  shows "sqrt x \<le> m"
proof -
  have "sqrt x \<le> sqrt (m * m)" using assms(2) by (rule real_sqrt_le_mono)
  then show ?thesis using assms(1) by simp
qed

lemma SizeSquared2D_nonneg: "0 \<le> SizeSquared2D v"
  by (simp add: SizeSquared2D_def)

lemma Size2D_nonneg: "0 \<le> Size2D v"
  by (simp add: Size2D_def SizeSquared2D_nonneg)

lemma Size2D_square: "Size2D v * Size2D v = SizeSquared2D v"
  by (simp add: Size2D_def SizeSquared2D_nonneg)

lemma Size2D_scaled:
  assumes "0 \<le> c"
  shows "Size2D (FVector (c * x) (c * y) z) = c * Size2D (FVector x y z')"
proof -
  have "(c * x) * (c * x) + (c * y) * (c * y) = (c * c) * (x * x + y * y)"
    by (simp add: algebra_simps)
  then have "sqrt ((c * x) * (c * x) + (c * y) * (c * y)) = sqrt (c * c) * sqrt (x * x + y * y)"
    by (simp add: real_sqrt_mult)
  then show ?thesis using assms by (simp add: Size2D_def SizeSquared2D_def)
qed

lemma GetClampedToMaxSize2D_form:
  assumes "KINDA_SMALL_NUMBER \<le> M"
  shows "\<exists>c. 0 < c \<and> c \<le> 1
           \<and> GetClampedToMaxSize2D v M = FVector (c * X v) (c * Y v) (Z v)
           \<and> c * Size2D v = min (Size2D v) M"
proof -
  have M: "0 < M" using assms by (simp add: KINDA_SMALL_NUMBER_def)
  show ?thesis
  proof (cases "SizeSquared2D v > FMath_Square M")
    case True
    then have "M * M < SizeSquared2D v" by (simp add: FMath_Square_def)
    then have big: "M < Size2D v"
      using M less_sqrt_of_square [of M "SizeSquared2D v"] by (simp add: Size2D_def)
    define c where "c = M * FMath_InvSqrt (SizeSquared2D v)"
    have c: "c = M / Size2D v" by (simp add: c_def FMath_InvSqrt_def Size2D_def)
    have "0 < c" using M big by (simp add: c)
    moreover have "c \<le> 1" using M big by (simp add: c)
    moreover have "GetClampedToMaxSize2D v M = FVector (c * X v) (c * Y v) (Z v)"
      using True assms
      by (simp add: GetClampedToMaxSize2D_def Let_def c_def mult.commute)
    moreover have "c * Size2D v = min (Size2D v) M" using M big by (simp add: c)
    ultimately show ?thesis by blast
  next
    case False
    then have "SizeSquared2D v \<le> M * M" by (simp add: FMath_Square_def)
    then have small: "Size2D v \<le> M"
      using M sqrt_le_of_square [of M "SizeSquared2D v"] by (simp add: Size2D_def)
    have "GetClampedToMaxSize2D v M = FVector (1 * X v) (1 * Y v) (Z v)"
      using False assms by (simp add: GetClampedToMaxSize2D_def Let_def)
    moreover have "1 * Size2D v = min (Size2D v) M" using small by simp
    ultimately show ?thesis by (metis zero_less_one order_refl)
  qed
qed

lemma GetSafeNormal2D_form: "\<exists>d. GetSafeNormal2D v = FVector (d * X v) (d * Y v) 0"
proof -
  have "GetSafeNormal2D v = FVector (1 * X v) (1 * Y v) 0
      \<or> GetSafeNormal2D v = FVector (0 * X v) (0 * Y v) 0
      \<or> GetSafeNormal2D v = FVector (FMath_InvSqrt (SizeSquared2D v) * X v)
                                  (FMath_InvSqrt (SizeSquared2D v) * Y v) 0"
    by (auto simp: GetSafeNormal2D_def Let_def FVector.expand mult.commute)
  then show ?thesis by blast
qed

lemma horizontal_not_nearly_zero:
  assumes "\<not> IsNearlyZero (FVector (X a) (Y a) 0) KINDA_SMALL_NUMBER"
  shows "KINDA_SMALL_NUMBER < Size2D a" "\<not> IsNearlyZero a KINDA_SMALL_NUMBER"
proof -
  have K: "0 < KINDA_SMALL_NUMBER" by (simp add: KINDA_SMALL_NUMBER_def)
  have sq: "KINDA_SMALL_NUMBER * KINDA_SMALL_NUMBER < x * x" if "KINDA_SMALL_NUMBER < \<bar>x\<bar>" for x
  proof -
    have "KINDA_SMALL_NUMBER * KINDA_SMALL_NUMBER < \<bar>x\<bar> * \<bar>x\<bar>"
      using that K by (intro mult_strict_mono) auto
    then show ?thesis by simp
  qed
  have nn: "0 \<le> x * x" for x :: real by simp
  from assms K consider "KINDA_SMALL_NUMBER < \<bar>X a\<bar>" | "KINDA_SMALL_NUMBER < \<bar>Y a\<bar>"
    by (auto simp: IsNearlyZero_def not_le)
  then have "KINDA_SMALL_NUMBER * KINDA_SMALL_NUMBER < SizeSquared2D a"
  proof cases
    case 1
    then show ?thesis using sq [of "X a"] nn [of "Y a"] unfolding SizeSquared2D_def by linarith
  next
    case 2
    then show ?thesis using sq [of "Y a"] nn [of "X a"] unfolding SizeSquared2D_def by linarith
  qed
  then show "KINDA_SMALL_NUMBER < Size2D a"
    using K less_sqrt_of_square [of KINDA_SMALL_NUMBER "SizeSquared2D a"] by (simp add: Size2D_def)
  show "\<not> IsNearlyZero a KINDA_SMALL_NUMBER"
    using assms K by (auto simp: IsNearlyZero_def)
qed

lemma CalcVelocity_WalkMove_air_unfold:
  "CalcVelocity_WalkMove cfg dt ms False False s =
     (let A1 = GetClampedToMaxSize2D (Acceleration s) ms;
          AccelDir = GetSafeNormal2D A1;
          Veer = X (Velocity s) * X AccelDir + Y (Velocity s) * Y AccelDir;
          AddSpeed = Size2D (GetClampedToMaxSize2D A1 (AirSpeedCap cfg)) - Veer
      in if AddSpeed > 0
         then s\<lparr>Acceleration := A1,
                Velocity := Velocity s + GetClampedToMaxSize2D
                  ((AirAccelerationMultiplier cfg * SurfaceFriction s * dt) *\<^sub>R A1) AddSpeed\<rparr>
         else s\<lparr>Acceleration := A1\<rparr>)"
  by (simp add: CalcVelocity_WalkMove_def Let_def)

lemma CalcVelocity_WalkMove_air_gain:
  assumes ms: "KINDA_SMALL_NUMBER \<le> ms"
    and cap: "KINDA_SMALL_NUMBER \<le> AirSpeedCap cfg"
    and acc: "\<not> IsNearlyZero (FVector (X (Acceleration s)) (Y (Acceleration s)) 0) KINDA_SMALL_NUMBER"
    and perp: "X (Velocity s) * X (Acceleration s) + Y (Velocity s) * Y (Acceleration s) = 0"
    and k: "0 < AirAccelerationMultiplier cfg * SurfaceFriction s * dt"
  shows "\<exists>cx cy cz c. Velocity (CalcVelocity_WalkMove cfg dt ms False False s)
                        = Velocity s + FVector cx cy cz
           \<and> 0 < c \<and> c \<le> AirSpeedCap cfg \<and> cx * cx + cy * cy = c * c
           \<and> X (Velocity s) * cx + Y (Velocity s) * cy = 0"
proof -
  define A where "A = Acceleration s"
  define V where "V = Velocity s"
  define k where "k = AirAccelerationMultiplier cfg * SurfaceFriction s * dt"
  have K: "0 < KINDA_SMALL_NUMBER" by (simp add: KINDA_SMALL_NUMBER_def)
  have kpos: "0 < k" using assms(5) by (simp add: k_def)
  have Abig: "KINDA_SMALL_NUMBER < Size2D A"
    using horizontal_not_nearly_zero(1) [OF acc] by (simp add: A_def)
  obtain c1 where c1: "0 < c1" "c1 \<le> 1"
      "GetClampedToMaxSize2D A ms = FVector (c1 * X A) (c1 * Y A) (Z A)"
      "c1 * Size2D A = min (Size2D A) ms"
    using GetClampedToMaxSize2D_form [OF ms, of A] by blast
  define A1 where "A1 = FVector (c1 * X A) (c1 * Y A) (Z A)"
  have sA1: "Size2D A1 = c1 * Size2D A"
    unfolding A1_def using Size2D_scaled [of c1 "X A" "Y A" "Z A" "Z A"] c1(1) by simp
  have A1big: "KINDA_SMALL_NUMBER \<le> Size2D A1" using Abig ms unfolding sA1 c1(4) by simp
  obtain d where d: "GetSafeNormal2D A1 = FVector (d * X A1) (d * Y A1) 0"
    using GetSafeNormal2D_form by blast
  have veer: "X V * X (GetSafeNormal2D A1) + Y V * Y (GetSafeNormal2D A1) = 0"
  proof -
    have "X V * X (GetSafeNormal2D A1) + Y V * Y (GetSafeNormal2D A1)
        = d * c1 * (X V * X A + Y V * Y A)"
      unfolding d by (simp add: A1_def algebra_simps)
    then show ?thesis using perp by (simp add: V_def A_def)
  qed
  obtain c2 where c2: "0 < c2" "c2 \<le> 1"
      "GetClampedToMaxSize2D A1 (AirSpeedCap cfg) = FVector (c2 * X A1) (c2 * Y A1) (Z A1)"
      "c2 * Size2D A1 = min (Size2D A1) (AirSpeedCap cfg)"
    using GetClampedToMaxSize2D_form [OF cap, of A1] by blast
  define AddSpeed where "AddSpeed = Size2D (GetClampedToMaxSize2D A1 (AirSpeedCap cfg))"
  have sA2: "AddSpeed = c2 * Size2D A1"
    unfolding AddSpeed_def c2(3)
    using Size2D_scaled [of c2 "X A1" "Y A1" "Z A1" "Z A1"] c2(1) by simp
  have add_lo: "KINDA_SMALL_NUMBER \<le> AddSpeed" using A1big cap unfolding sA2 c2(4) by simp
  have add_hi: "AddSpeed \<le> AirSpeedCap cfg" unfolding sA2 c2(4) by simp
  have add_pos: "0 < AddSpeed" using add_lo K by simp
  define B where "B = k *\<^sub>R A1"
  obtain c3 where c3: "0 < c3" "c3 \<le> 1"
      "GetClampedToMaxSize2D B AddSpeed = FVector (c3 * X B) (c3 * Y B) (Z B)"
      "c3 * Size2D B = min (Size2D B) AddSpeed"
    using GetClampedToMaxSize2D_form [OF add_lo, of B] by blast
  have sB: "Size2D B = k * Size2D A1"
  proof -
    have "B = FVector (k * X A1) (k * Y A1) (k * Z A1)" by (simp add: B_def FVector.expand)
    then show ?thesis
      using Size2D_scaled [of k "X A1" "Y A1" "k * Z A1" "Z A1"] kpos by simp
  qed
  have Bpos: "0 < Size2D B" using kpos A1big K unfolding sB by simp
  define cx where "cx = c3 * X B"
  define cy where "cy = c3 * Y B"
  define c where "c = c3 * Size2D B"
  have cpos: "0 < c" using c3(1) Bpos by (simp add: c_def)
  have chi: "c \<le> AirSpeedCap cfg" using add_hi unfolding c_def c3(4) by simp
  have csq: "cx * cx + cy * cy = c * c"
  proof -
    have "cx * cx + cy * cy = (c3 * c3) * SizeSquared2D B"
      by (simp add: cx_def cy_def SizeSquared2D_def algebra_simps)
    also have "\<dots> = (c3 * c3) * (Size2D B * Size2D B)" by (simp add: Size2D_square)
    finally show ?thesis by (simp add: c_def algebra_simps)
  qed
  have cperp: "X V * cx + Y V * cy = 0"
  proof -
    have "X V * cx + Y V * cy = c3 * k * c1 * (X V * X A + Y V * Y A)"
      by (simp add: cx_def cy_def B_def A1_def algebra_simps)
    then show ?thesis using perp by (simp add: V_def A_def)
  qed
  have "Velocity (CalcVelocity_WalkMove cfg dt ms False False s) = V + FVector cx cy (Z B)"
    unfolding CalcVelocity_WalkMove_air_unfold Let_def
    using veer add_pos c3(3)
    by (simp add: A_def [symmetric] c1(3) A1_def [symmetric] V_def [symmetric]
        AddSpeed_def [symmetric] k_def [symmetric] B_def [symmetric] cx_def cy_def)
  then show ?thesis using cpos chi csq cperp unfolding V_def by blast
qed

lemma LimitAxisSpeed_id:
  assumes "\<bar>X (Velocity s)\<bar> \<le> AxisSpeedLimit cfg" "\<bar>Y (Velocity s)\<bar> \<le> AxisSpeedLimit cfg"
  shows "LimitAxisSpeed cfg s = s"
proof -
  have "FMath_Clamp (X (Velocity s)) (- AxisSpeedLimit cfg) (AxisSpeedLimit cfg) = X (Velocity s)"
    "FMath_Clamp (Y (Velocity s)) (- AxisSpeedLimit cfg) (AxisSpeedLimit cfg) = Y (Velocity s)"
    using assms by (simp_all add: FMath_Clamp_def)
  then show ?thesis by (simp add: LimitAxisSpeed_def)
qed

lemma CalcVelocity_air_unfold:
  assumes "HasValidData env" "\<not> HasAnimRootMotion env" "MIN_TICK_TIME \<le> dt"
    and "\<not> (IsSimulatedProxy env \<and> \<not> bWasSimulatingRootMotion env)"
    and "\<not> bForceMaxAccel cfg" "\<not> bIsGroundMove s" "\<not> bCheatFlying s" "\<not> bOnLadder s"
    and "\<bar>X (Velocity s)\<bar> \<le> AxisSpeedLimit cfg" "\<bar>Y (Velocity s)\<bar> \<le> AxisSpeedLimit cfg"
  shows "CalcVelocity env cfg dt F False BD s =
     CalcVelocity_StepHeight cfg (LimitAxisSpeed cfg
       (CalcVelocity_WalkMove cfg dt
          (max (GetMaxSpeed cfg s * AnalogInputModifier s) (GetMinAnalogSpeed cfg s))
          (IsNearlyZero (Acceleration s) KINDA_SMALL_NUMBER) False s))"
proof -
  have s1: "CalcVelocity_ForceMaxAccel env cfg s = s"
    using assms(5) by (simp add: CalcVelocity_ForceMaxAccel_def)
  have s2: "CalcVelocity_ApplyFriction env cfg dt f bd ms s = s" for f bd ms
    using assms(6) by (simp add: CalcVelocity_ApplyFriction_def)
  have s4: "LimitAxisSpeed cfg s = s" using assms(9,10) by (rule LimitAxisSpeed_id)
  show ?thesis
    using assms(1-4,6,7,8) by (auto simp: CalcVelocity_def Let_def s1 s2 s4)
qed

lemma abs_le_of_square:
  fixes x c :: real
  assumes "x * x \<le> c * c" "0 \<le> c"
  shows "\<bar>x\<bar> \<le> c"
proof -
  have "sqrt (x * x) \<le> c" using assms by (intro sqrt_le_of_square)
  then show ?thesis by simp
qed

text \<open>
  Claim C2, as amended. While airborne (not a ground move, not noclipping, not on a
  ladder, no fluid friction, no forced maximum acceleration), whenever
  \<^verbatim>\<open>CalcVelocity\<close> performs its update, for every input acceleration whose
  horizontal part is not nearly zero (some horizontal component above
  \<^verbatim>\<open>KINDA_SMALL_NUMBER\<close>) and is perpendicular to the current horizontal velocity,
  with a positive product of \<^verbatim>\<open>AirAccelerationMultiplier\<close> and
  \<^verbatim>\<open>SurfaceFriction\<close>, a maximum speed and an \<^verbatim>\<open>AirSpeedCap\<close> of at least
  \<^verbatim>\<open>KINDA_SMALL_NUMBER\<close>, and each horizontal velocity component at least
  \<^verbatim>\<open>AirSpeedCap\<close> below the axis speed limit, the tick strictly increases the 2D
  speed: the squared 2D speed grows by \<open>c\<^sup>2\<close> for some \<open>0 < c \<le> AirSpeedCap\<close>, whatever
  the speed is compared with the walk, run or sprint caps, and no braking is applied (the
  result does not depend on the braking friction and deceleration). The air acceleration
  is scaled by \<^verbatim>\<open>SurfaceFriction\<close>: with a surface friction of 0 the tick adds no
  speed.
\<close>

theorem CalcVelocity_air_strafe_gain:
  fixes env cfg dt F BD s
  defines "s' \<equiv> CalcVelocity env cfg dt F False BD s"
  assumes run: "HasValidData env" "\<not> HasAnimRootMotion env" "MIN_TICK_TIME \<le> dt"
      "\<not> (IsSimulatedProxy env \<and> \<not> bWasSimulatingRootMotion env)"
    and mode: "\<not> bIsGroundMove s" "\<not> bCheatFlying s" "\<not> bOnLadder s" "\<not> bForceMaxAccel cfg"
    and acc: "\<not> IsNearlyZero (FVector (X (Acceleration s)) (Y (Acceleration s)) 0) KINDA_SMALL_NUMBER"
    and perp: "X (Velocity s) * X (Acceleration s) + Y (Velocity s) * Y (Acceleration s) = 0"
    and tun: "KINDA_SMALL_NUMBER \<le> max (GetMaxSpeed cfg s * AnalogInputModifier s) (GetMinAnalogSpeed cfg s)"
      "KINDA_SMALL_NUMBER \<le> AirSpeedCap cfg"
      "0 < AirAccelerationMultiplier cfg * SurfaceFriction s"
    and lim: "\<bar>X (Velocity s)\<bar> + AirSpeedCap cfg \<le> AxisSpeedLimit cfg"
      "\<bar>Y (Velocity s)\<bar> + AirSpeedCap cfg \<le> AxisSpeedLimit cfg"
  shows "Size2D (Velocity s) < Size2D (Velocity s')
       \<and> (\<exists>c. 0 < c \<and> c \<le> AirSpeedCap cfg
              \<and> SizeSquared2D (Velocity s') = SizeSquared2D (Velocity s) + c * c)
       \<and> Size2D (Velocity s') \<le> Size2D (Velocity s) + AirSpeedCap cfg
       \<and> s' = CalcVelocity env cfg dt F2 False BD2 s"
proof -
  define ms where "ms = max (GetMaxSpeed cfg s * AnalogInputModifier s) (GetMinAnalogSpeed cfg s)"
  define w where "w = CalcVelocity_WalkMove cfg dt ms False False s"
  have K: "0 < KINDA_SMALL_NUMBER" by (simp add: KINDA_SMALL_NUMBER_def)
  have dt: "0 < dt" using run(3) by (simp add: MIN_TICK_TIME_def)
  have k: "0 < AirAccelerationMultiplier cfg * SurfaceFriction s * dt" using tun(3) dt by simp
  have nz: "\<not> IsNearlyZero (Acceleration s) KINDA_SMALL_NUMBER"
    using horizontal_not_nearly_zero(2) [OF acc] .
  have cap0: "0 \<le> AirSpeedCap cfg" using tun(2) K by simp
  have lim0: "\<bar>X (Velocity s)\<bar> \<le> AxisSpeedLimit cfg" "\<bar>Y (Velocity s)\<bar> \<le> AxisSpeedLimit cfg"
    using lim cap0 by simp_all
  have unfold: "s' = CalcVelocity_StepHeight cfg (LimitAxisSpeed cfg w)"
    unfolding s'_def w_def ms_def
    using CalcVelocity_air_unfold [OF run mode(4) mode(1,2,3) lim0, of F BD] nz by simp
  obtain cx cy cz c where g: "Velocity w = Velocity s + FVector cx cy cz"
      "0 < c" "c \<le> AirSpeedCap cfg" "cx * cx + cy * cy = c * c"
      "X (Velocity s) * cx + Y (Velocity s) * cy = 0"
    using CalcVelocity_WalkMove_air_gain [OF tun(1) [folded ms_def] tun(2) acc perp k]
    unfolding w_def by blast
  have "cx * cx \<le> c * c" "cy * cy \<le> c * c"
    using g(4) zero_le_square [of cx] zero_le_square [of cy] by linarith+
  then have ab: "\<bar>cx\<bar> \<le> c" "\<bar>cy\<bar> \<le> c" using g(2) by (simp_all add: abs_le_of_square)
  have wl: "\<bar>X (Velocity w)\<bar> \<le> AxisSpeedLimit cfg" "\<bar>Y (Velocity w)\<bar> \<le> AxisSpeedLimit cfg"
    using ab g(3) lim by (simp_all add: g(1))
  have vel: "Velocity s' = Velocity s + FVector cx cy cz"
    unfolding unfold by (simp add: CalcVelocity_stage_frame LimitAxisSpeed_id [OF wl] g(1))
  have sq: "SizeSquared2D (Velocity s') = SizeSquared2D (Velocity s) + c * c"
  proof -
    have "SizeSquared2D (Velocity s')
        = SizeSquared2D (Velocity s) + 2 * (X (Velocity s) * cx + Y (Velocity s) * cy)
          + (cx * cx + cy * cy)"
      by (simp add: vel SizeSquared2D_def algebra_simps)
    then show ?thesis by (simp add: g(4) g(5))
  qed
  have "SizeSquared2D (Velocity s) < SizeSquared2D (Velocity s')" using g(2) by (simp add: sq)
  then have gain: "Size2D (Velocity s) < Size2D (Velocity s')"
    unfolding Size2D_def by (rule real_sqrt_less_mono)
  have bound: "Size2D (Velocity s') \<le> Size2D (Velocity s) + AirSpeedCap cfg"
  proof -
    define a where "a = Size2D (Velocity s)"
    have a0: "0 \<le> a" unfolding a_def by (rule Size2D_nonneg)
    have aa: "a * a = SizeSquared2D (Velocity s)" unfolding a_def by (rule Size2D_square)
    have ac: "0 \<le> a * c" using a0 g(2) by simp
    have "(a + c) * (a + c) = a * a + 2 * (a * c) + c * c" by (simp add: algebra_simps)
    then have "SizeSquared2D (Velocity s') \<le> (a + c) * (a + c)"
      using ac unfolding sq aa by linarith
    moreover have "0 \<le> a + c" using a0 g(2) by simp
    ultimately have "sqrt (SizeSquared2D (Velocity s')) \<le> a + c"
      by (intro sqrt_le_of_square)
    then show ?thesis using g(3) by (simp add: Size2D_def [of "Velocity s'"] a_def)
  qed
  have indep: "s' = CalcVelocity env cfg dt F2 False BD2 s"
    unfolding s'_def using CalcVelocity_no_ground_braking [OF mode(1)] .
  show ?thesis using gain sq g(2,3) bound indep by blast
qed

theorem CalcVelocity_air_strafe_gain_witness:
  "Size2D (FVector 0 300 0)
     < Size2D (Velocity (CalcVelocity ExampleEnv ConstructorConfig (1 / 60) 0 False 0
         (ConstructorState\<lparr>MovementMode := MOVE_Falling, Velocity := FVector 0 300 0,
            Acceleration := FVector 857.25 0 0\<rparr>)))"
  using CalcVelocity_air_strafe_gain [where env = ExampleEnv and cfg = ConstructorConfig
      and dt = "1 / 60" and F = 0 and BD = 0
      and s = "ConstructorState\<lparr>MovementMode := MOVE_Falling, Velocity := FVector 0 300 0,
            Acceleration := FVector 857.25 0 0\<rparr>"]
  by (simp add: ExampleEnv_def ConstructorConfig_def ConstructorState_def MIN_TICK_TIME_def
      KINDA_SMALL_NUMBER_def bIsGroundMove_def IsMovingOnGround_def IsNearlyZero_def
      GetMaxSpeed_def GetMinAnalogSpeed_def IsCrouching_def)

lemma GetClampedToMaxSize2D_zero: "GetClampedToMaxSize2D 0 M = 0"
  by (simp add: GetClampedToMaxSize2D_def SizeSquared2D_def FMath_Square_def Let_def
      not_less FVector.expand)

lemma CalcVelocity_WalkMove_zero_friction:
  assumes "SurfaceFriction s = 0"
  shows "Velocity (CalcVelocity_WalkMove cfg dt ms bz False s) = Velocity s"
proof -
  show ?thesis
    using assms
    by (simp add: CalcVelocity_WalkMove_def Let_def GetClampedToMaxSize2D_zero)
qed

text \<open>
  Claim C2 as stated fails: an agent falling with velocity (0, 300, 0), full sideways
  input (857.25, 0, 0) perpendicular to it and a surface friction of 0 (the value a
  frictionless floor leaves until the friction is refreshed) keeps its velocity, so the
  2D speed does not increase.
\<close>

theorem CalcVelocity_zero_friction_counterexample:
  "Velocity (CalcVelocity ExampleEnv ConstructorConfig (1 / 60) 0 False 0
       (ConstructorState\<lparr>MovementMode := MOVE_Falling, SurfaceFriction := 0,
          Velocity := FVector 0 300 0, Acceleration := FVector 857.25 0 0\<rparr>))
     = FVector 0 300 0"
proof -
  define s0 where "s0 = ConstructorState\<lparr>MovementMode := MOVE_Falling, SurfaceFriction := 0,
          Velocity := FVector 0 300 0, Acceleration := FVector 857.25 0 0\<rparr>"
  have u: "CalcVelocity ExampleEnv ConstructorConfig (1 / 60) 0 False 0 s0 =
     CalcVelocity_StepHeight ConstructorConfig (LimitAxisSpeed ConstructorConfig
       (CalcVelocity_WalkMove ConstructorConfig (1 / 60)
          (max (GetMaxSpeed ConstructorConfig s0 * AnalogInputModifier s0)
             (GetMinAnalogSpeed ConstructorConfig s0))
          (IsNearlyZero (Acceleration s0) KINDA_SMALL_NUMBER) False s0))"
    by (rule CalcVelocity_air_unfold)
      (simp_all add: s0_def ExampleEnv_def ConstructorConfig_def ConstructorState_def
        MIN_TICK_TIME_def bIsGroundMove_def IsMovingOnGround_def)
  have w: "Velocity (CalcVelocity_WalkMove ConstructorConfig (1 / 60) m b False s0) = FVector 0 300 0"
    for m b
    using CalcVelocity_WalkMove_zero_friction [of s0 ConstructorConfig "1 / 60" m b]
    by (simp add: s0_def)
  have L: "AxisSpeedLimit ConstructorConfig = 6667.5" by (simp add: ConstructorConfig_def)
  show ?thesis
    unfolding s0_def [symmetric] u
    by (simp add: CalcVelocity_stage_frame LimitAxisSpeed_def w FMath_Clamp_def L)
qed

definition RampHit :: FHitResult where
  "RampHit =
     \<lparr> bBlockingHit = True, bStartPenetrating = False, Time = 0.5,
       Location = FVector 0 0 100, ImpactPoint = FVector 5 0 40,
       Normal = FVector (- 0.6) 0 0.8, ImpactNormal = FVector (- 0.6) 0 0.8 \<rparr>"





section \<open>IsValidLandingSpot\<close>

text \<open>
  \<^verbatim>\<open>UCharacterMovementComponent::IsWalkable\<close> of the engine: a valid blocking hit
  whose impact normal is not steeper than the walkable floor Z. (A walkable-slope override
  of the hit component is not modelled.)
\<close>

definition IsWalkable :: "PBState \<Rightarrow> FHitResult \<Rightarrow> bool" where
  "IsWalkable s Hit =
     (if \<not> (bBlockingHit Hit \<and> \<not> bStartPenetrating Hit) then False
      else if Z (ImpactNormal Hit) < KINDA_SMALL_NUMBER then False
      else if Z (ImpactNormal Hit) < WalkableFloorZ s then False
      else True)"

text \<open>\<^verbatim>\<open>UCharacterMovementComponent::IsWithinEdgeTolerance\<close> of the engine.\<close>

definition IsWithinEdgeTolerance :: "FVector \<Rightarrow> FVector \<Rightarrow> real \<Rightarrow> bool" where
  "IsWithinEdgeTolerance CapsuleLocation TestImpactPoint CapsuleRadius0 =
     (let DistFromCenterSq = SizeSquared2D (TestImpactPoint - CapsuleLocation);
          ReducedRadiusSq =
            FMath_Square (max (SWEEP_EDGE_REJECT_DISTANCE + KINDA_SMALL_NUMBER)
                              (CapsuleRadius0 - SWEEP_EDGE_REJECT_DISTANCE))
      in DistFromCenterSq < ReducedRadiusSq)"

text \<open>
  \<^verbatim>\<open>GetScaledCapsuleSize\<close>: the capsule's radius and half-height times the shape
  scale.
\<close>

definition GetScaledCapsuleRadius :: "PBEnv \<Rightarrow> PBState \<Rightarrow> real" where
  "GetScaledCapsuleRadius env s = CapsuleRadius s * ShapeScale env"

definition GetScaledCapsuleHalfHeight :: "PBEnv \<Rightarrow> PBState \<Rightarrow> real" where
  "GetScaledCapsuleHalfHeight env s = CapsuleHalfHeight s * ShapeScale env"

text \<open>
  The floor query \<^verbatim>\<open>FindFloor(CapsuleLocation, FloorResult, false, &Hit)\<close> is the
  world's answer: \<open>FindFloor_IsWalkableFloor env CapsuleLocation Hit\<close> is
  \<^verbatim>\<open>FloorResult.IsWalkableFloor()\<close>.
\<close>

definition IsValidLandingSpot :: "PBEnv \<Rightarrow> PBConfig \<Rightarrow> PBState \<Rightarrow> FVector \<Rightarrow> FHitResult \<Rightarrow> bool"
where
  "IsValidLandingSpot env cfg s CapsuleLocation Hit =
     (if \<not> bBlockingHit Hit then False
      else if \<not> bStartPenetrating Hit \<and> \<not> IsWalkable s Hit then False
      else if \<not> bStartPenetrating Hit \<and>
              (let PawnRadius = GetScaledCapsuleRadius env s;
                   PawnHalfHeight = GetScaledCapsuleHalfHeight env s
               in if bUseFlatBaseForFloorChecks cfg then
                    (let LowerHemisphereZ = Z (Location Hit) - PawnHalfHeight + MAX_FLOOR_DIST
                     in (Z (ImpactNormal Hit) < WalkableFloorZ s \<or> Z (ImpactNormal Hit) = 1)
                        \<and> Z (ImpactPoint Hit) > LowerHemisphereZ)
                  else
                    (let LowerHemisphereZ = Z (Location Hit) - PawnHalfHeight + PawnRadius
                     in Z (ImpactPoint Hit) \<ge> LowerHemisphereZ))
           then False
      else if \<not> bStartPenetrating Hit \<and>
              \<not> IsWithinEdgeTolerance (Location Hit) (ImpactPoint Hit)
                   (GetScaledCapsuleRadius env s)
           then False
      else if bStartPenetrating Hit \<and> Z (Normal Hit) < KINDA_SMALL_NUMBER then False
      else if \<not> FindFloor_IsWalkableFloor env CapsuleLocation Hit then False
      else if Z (Normal Hit) < 1 \<and> DotProduct (Velocity s) (Normal Hit) < 0 then
        (let DeflectionVector0 = Velocity s;
             DeflectionVector1 =
               FVector (X DeflectionVector0) (Y DeflectionVector0)
                 (Z DeflectionVector0 + 0.5 * GravityZ env * DeltaSeconds env);
             DeflectionVector = ComputeSlideVector env cfg s DeflectionVector1 1 (Normal Hit) Hit
         in if Z DeflectionVector > JumpVelocity then False else True)
      else True)"

text \<open>
  Claim C9, as amended. \<^verbatim>\<open>IsValidLandingSpot\<close> is a pure, deterministic function:
  it changes no state, and its boolean result is determined by the hit, the capsule
  location and size, the tunables, the answers of the world (floor query, gravity, frame
  delta) and these members of the component: \<^verbatim>\<open>Velocity\<close>, the current walkable
  floor Z, \<^verbatim>\<open>SurfaceFriction\<close>, the movement mode and the ladder and noclip flags.
  For a fixed hit and capsule location, any two invocations in states that agree on these
  yield the identical result, whatever else differs. The hit and the capsule size alone
  do not determine the result.
\<close>

theorem IsValidLandingSpot_depends_only_on:
  assumes "Velocity s1 = Velocity s2" "WalkableFloorZ s1 = WalkableFloorZ s2"
    and "SurfaceFriction s1 = SurfaceFriction s2" "MovementMode s1 = MovementMode s2"
    and "bOnLadder s1 = bOnLadder s2" "bCheatFlying s1 = bCheatFlying s2"
    and "CapsuleRadius s1 = CapsuleRadius s2" "CapsuleHalfHeight s1 = CapsuleHalfHeight s2"
  shows "IsValidLandingSpot env cfg s1 CapsuleLocation Hit
       = IsValidLandingSpot env cfg s2 CapsuleLocation Hit"
proof -
  have w: "IsWalkable s1 Hit = IsWalkable s2 Hit" using assms(2) by (simp add: IsWalkable_def)
  have r: "GetScaledCapsuleRadius env s1 = GetScaledCapsuleRadius env s2"
    using assms(7) by (simp add: GetScaledCapsuleRadius_def)
  have h: "GetScaledCapsuleHalfHeight env s1 = GetScaledCapsuleHalfHeight env s2"
    using assms(8) by (simp add: GetScaledCapsuleHalfHeight_def)
  have hsb: "HandleSlopeBoosting env cfg s1 a b c d e = HandleSlopeBoosting env cfg s2 a b c d e"
    for a b c d e
    using assms(3,5,6) by (simp add: HandleSlopeBoosting_def)
  have csv: "ComputeSlideVector env cfg s1 a b d e = ComputeSlideVector env cfg s2 a b d e"
    for a b d e
    using assms(4) by (simp add: ComputeSlideVector_def IsFalling_def Let_def hsb)
  show ?thesis
    unfolding IsValidLandingSpot_def w r h csv assms(1) assms(2) by (rule refl)
qed

theorem IsValidLandingSpot_depends_only_on_witness:
  "IsValidLandingSpot ExampleEnv ConstructorConfig
       (ConstructorState\<lparr>MovementMode := MOVE_Falling, Velocity := FVector 0 0 (- 100)\<rparr>)
       (FVector 0 0 100) RampHit
   = IsValidLandingSpot ExampleEnv ConstructorConfig
       (ConstructorState\<lparr>MovementMode := MOVE_Falling, Velocity := FVector 0 0 (- 100),
          bBrakingWindowElapsed := False, LastJumpBoostTime := 3, ComponentLocation := FVector 5 5 5\<rparr>)
       (FVector 0 0 100) RampHit"
  using IsValidLandingSpot_depends_only_on [where env = ExampleEnv and cfg = ConstructorConfig
      and CapsuleLocation = "FVector 0 0 100" and Hit = RampHit
      and ?s1.0 = "ConstructorState\<lparr>MovementMode := MOVE_Falling, Velocity := FVector 0 0 (- 100)\<rparr>"
      and ?s2.0 = "ConstructorState\<lparr>MovementMode := MOVE_Falling, Velocity := FVector 0 0 (- 100),
          bBrakingWindowElapsed := False, LastJumpBoostTime := 3, ComponentLocation := FVector 5 5 5\<rparr>"]
  by simp

lemmas landing_eval =
  IsValidLandingSpot_def IsWalkable_def IsWithinEdgeTolerance_def GetScaledCapsuleRadius_def
  GetScaledCapsuleHalfHeight_def ComputeSlideVector_def HandleSlopeBoosting_def IsFalling_def
  ConstrainNormalToPlane_def VectorPlaneProject_def ProjectOnToNormal_def DotProduct_def
  SizeSquared2D_def FMath_Square_def VerticalSlopeNormalZ_def JumpVelocity_def
  MAX_FLOOR_DIST_def SWEEP_EDGE_REJECT_DISTANCE_def KINDA_SMALL_NUMBER_def
  ExampleEnv_def ConstructorConfig_def ConstructorState_def RampHit_def Let_def FVector_eval

text \<open>
  Claim C9 as stated fails: for the same hit on a ramp of normal (-0.6, 0, 0.8), the same
  capsule location and the same capsule size, an agent falling straight down at 100 has a
  valid landing spot, while an agent moving into the ramp at 1000 has not (the deflected
  velocity rises faster than the jump velocity).
\<close>

theorem IsValidLandingSpot_velocity_counterexample:
  "IsValidLandingSpot ExampleEnv ConstructorConfig
       (ConstructorState\<lparr>MovementMode := MOVE_Falling, Velocity := FVector 0 0 (- 100)\<rparr>)
       (FVector 0 0 100) RampHit
   \<and> \<not> IsValidLandingSpot ExampleEnv ConstructorConfig
       (ConstructorState\<lparr>MovementMode := MOVE_Falling, Velocity := FVector 1000 0 0\<rparr>)
       (FVector 0 0 100) RampHit
   \<and> CapsuleRadius (ConstructorState\<lparr>MovementMode := MOVE_Falling, Velocity := FVector 0 0 (- 100)\<rparr>)
     = CapsuleRadius (ConstructorState\<lparr>MovementMode := MOVE_Falling, Velocity := FVector 1000 0 0\<rparr>)
   \<and> CapsuleHalfHeight (ConstructorState\<lparr>MovementMode := MOVE_Falling, Velocity := FVector 0 0 (- 100)\<rparr>)
     = CapsuleHalfHeight (ConstructorState\<lparr>MovementMode := MOVE_Falling, Velocity := FVector 1000 0 0\<rparr>)"
  by (simp add: landing_eval)

section \<open>PhysFalling: the jump apex\<close>

text \<open>
  The locals of the loop of \<^verbatim>\<open>PhysFalling\<close> that the apex block writes.
\<close>

record PhysFallingLocals =
  TimeTick :: real
  RemainingTime :: real
  Iterations :: int

text \<open>
  The block of \<^verbatim>\<open>PhysFalling\<close> that sub-steps to the jump apex. \<open>OldVel\<close> is
  \<^verbatim>\<open>OldVelocity\<close>, the velocity before input and gravity were applied in this
  iteration; the velocity of the state is the one after gravity.
\<close>

definition PhysFalling_JumpApex ::
  "PBConfig \<Rightarrow> FVector \<Rightarrow> PhysFallingLocals \<times> PBState \<Rightarrow> PhysFallingLocals \<times> PBState"
where
  "PhysFalling_JumpApex cfg OldVel ls =
     (let l = fst ls; s = snd ls in
      if Z OldVel > 0 \<and> Z (Velocity s) \<le> 0
         \<and> NumJumpApexAttempts s < MaxJumpApexAttemptsPerSimulation cfg
      then
        (let DerivedAccel = (1 / TimeTick l) *\<^sub>R (Velocity s - OldVel) in
         if \<not> FMath_IsNearlyZero (Z DerivedAccel) then
           (let TimeToApex = - Z OldVel / Z DerivedAccel;
                ApexTimeMinimum = 0.0001
            in if TimeToApex \<ge> ApexTimeMinimum \<and> TimeToApex < TimeTick l then
                 (let ApexVelocity = OldVel + TimeToApex *\<^sub>R DerivedAccel
                  in (l\<lparr>RemainingTime := RemainingTime l + (TimeTick l - TimeToApex),
                        TimeTick := TimeToApex,
                        Iterations := Iterations l - 1\<rparr>,
                      s\<lparr>Velocity := FVector (X ApexVelocity) (Y ApexVelocity) 0,
                        NumJumpApexAttempts := NumJumpApexAttempts s + 1\<rparr>))
               else (l, s))
         else (l, s))
      else (l, s))"

text \<open>
  The number of apex splits in one simulation: the block is run once per iteration, each
  with its own old velocity, locals and post-gravity velocity, and a split is an iteration
  in which the block counts an attempt.
\<close>

fun PhysFalling_ApexSplits ::
  "PBConfig \<Rightarrow> (FVector \<times> PhysFallingLocals \<times> FVector) list \<Rightarrow> PBState \<Rightarrow> nat"
where
  "PhysFalling_ApexSplits cfg [] s = 0"
| "PhysFalling_ApexSplits cfg ((OldVel, l, Vel) # steps) s =
     (let s' = snd (PhysFalling_JumpApex cfg OldVel (l, s\<lparr>Velocity := Vel\<rparr>))
      in (if NumJumpApexAttempts s' \<noteq> NumJumpApexAttempts s then 1 else 0)
         + PhysFalling_ApexSplits cfg steps s')"

lemma PhysFalling_JumpApex_counter:
  fixes cfg OldVel l s
  defines "s' \<equiv> snd (PhysFalling_JumpApex cfg OldVel (l, s))"
  shows "NumJumpApexAttempts s' = NumJumpApexAttempts s
         \<or> (NumJumpApexAttempts s' = NumJumpApexAttempts s + 1
            \<and> NumJumpApexAttempts s < MaxJumpApexAttemptsPerSimulation cfg)"
  by (simp add: s'_def PhysFalling_JumpApex_def Let_def)

lemma PhysFalling_ApexSplits_bound:
  "int (PhysFalling_ApexSplits cfg steps s)
     \<le> max 0 (MaxJumpApexAttemptsPerSimulation cfg - NumJumpApexAttempts s)"
proof (induction steps arbitrary: s)
  case Nil
  show ?case by simp
next
  case (Cons step steps)
  obtain OldVel l Vel where step: "step = (OldVel, l, Vel)" by (cases step) auto
  define s' where "s' = snd (PhysFalling_JumpApex cfg OldVel (l, s\<lparr>Velocity := Vel\<rparr>))"
  have c: "NumJumpApexAttempts s' = NumJumpApexAttempts s
         \<or> (NumJumpApexAttempts s' = NumJumpApexAttempts s + 1
            \<and> NumJumpApexAttempts s < MaxJumpApexAttemptsPerSimulation cfg)"
    using PhysFalling_JumpApex_counter [of cfg OldVel l "s\<lparr>Velocity := Vel\<rparr>"]
    by (simp add: s'_def)
  have IH: "int (PhysFalling_ApexSplits cfg steps s')
     \<le> max 0 (MaxJumpApexAttemptsPerSimulation cfg - NumJumpApexAttempts s')"
    by (rule Cons.IH)
  have "PhysFalling_ApexSplits cfg (step # steps) s
      = (if NumJumpApexAttempts s' \<noteq> NumJumpApexAttempts s then 1 else 0)
        + PhysFalling_ApexSplits cfg steps s'"
    by (simp add: step s'_def Let_def)
  then show ?case using c IH by auto
qed

text \<open>
  Claim C3. In \<^verbatim>\<open>PhysFalling\<close>, whenever the vertical velocity before the
  sub-step is positive, the one after gravity is at most zero and the apex-attempt counter
  is below \<^verbatim>\<open>MaxJumpApexAttemptsPerSimulation\<close>, the time-to-apex the code computes
  (under its guard that the derived vertical acceleration is not nearly zero) is
  \<open>- OldVelocity.Z / DerivedAccel.Z\<close>; with the velocity after gravity being
  \<open>OldVelocity.Z + G * TimeTick\<close> this is exactly \<open>- OldVelocity.Z / G\<close>. If that time lies
  in \<open>[0.0001, TimeTick)\<close> the sub-step is split there: the vertical velocity is set to
  exactly zero, the time tick becomes the time-to-apex, the rest of the tick goes back to
  the remaining time, the iteration is not counted and the attempt is. However the
  iterations of one simulation go, the splits are at most
  \<^verbatim>\<open>MaxJumpApexAttemptsPerSimulation\<close> minus the counter at its start, so at most
  \<^verbatim>\<open>MaxJumpApexAttemptsPerSimulation\<close> when the counter starts at zero.
\<close>

theorem PhysFalling_apex_split:
  fixes cfg OldVel l s steps s0 G
  defines "DerivedAccelZ \<equiv> Z ((1 / TimeTick l) *\<^sub>R (Velocity s - OldVel))"
  defines "TimeToApex \<equiv> - Z OldVel / DerivedAccelZ"
  defines "r \<equiv> PhysFalling_JumpApex cfg OldVel (l, s)"
  assumes "Z OldVel > 0" "Z (Velocity s) \<le> 0"
    and "NumJumpApexAttempts s < MaxJumpApexAttemptsPerSimulation cfg"
    and "\<not> FMath_IsNearlyZero DerivedAccelZ"
    and "0.0001 \<le> TimeToApex" "TimeToApex < TimeTick l"
  shows "Z (Velocity (snd r)) = 0
       \<and> TimeTick (fst r) = TimeToApex
       \<and> RemainingTime (fst r) = RemainingTime l + (TimeTick l - TimeToApex)
       \<and> Iterations (fst r) = Iterations l - 1
       \<and> NumJumpApexAttempts (snd r) = NumJumpApexAttempts s + 1
       \<and> (Z (Velocity s) = Z OldVel + G * TimeTick l \<longrightarrow> TimeToApex = - Z OldVel / G)
       \<and> int (PhysFalling_ApexSplits cfg steps s0)
           \<le> max 0 (MaxJumpApexAttemptsPerSimulation cfg - NumJumpApexAttempts s0)
       \<and> (NumJumpApexAttempts s0 = 0
           \<longrightarrow> int (PhysFalling_ApexSplits cfg steps s0) \<le> max 0 (MaxJumpApexAttemptsPerSimulation cfg))"
proof -
  have split: "r = (l\<lparr>RemainingTime := RemainingTime l + (TimeTick l - TimeToApex),
                        TimeTick := TimeToApex, Iterations := Iterations l - 1\<rparr>,
                    s\<lparr>Velocity := FVector
                          (X (OldVel + TimeToApex *\<^sub>R ((1 / TimeTick l) *\<^sub>R (Velocity s - OldVel))))
                          (Y (OldVel + TimeToApex *\<^sub>R ((1 / TimeTick l) *\<^sub>R (Velocity s - OldVel)))) 0,
                      NumJumpApexAttempts := NumJumpApexAttempts s + 1\<rparr>)"
    using assms(4-9)
    unfolding r_def PhysFalling_JumpApex_def Let_def TimeToApex_def DerivedAccelZ_def
    by simp
  have tt: "TimeTick l \<noteq> 0" using assms(7) by (auto simp: DerivedAccelZ_def FMath_IsNearlyZero_def SMALL_NUMBER_def)
  have grav: "Z (Velocity s) = Z OldVel + G * TimeTick l \<longrightarrow> TimeToApex = - Z OldVel / G"
    using tt by (simp add: TimeToApex_def DerivedAccelZ_def)
  have bound: "int (PhysFalling_ApexSplits cfg steps s0)
           \<le> max 0 (MaxJumpApexAttemptsPerSimulation cfg - NumJumpApexAttempts s0)"
    by (rule PhysFalling_ApexSplits_bound)
  have bound0: "NumJumpApexAttempts s0 = 0
           \<longrightarrow> int (PhysFalling_ApexSplits cfg steps s0) \<le> max 0 (MaxJumpApexAttemptsPerSimulation cfg)"
    using bound by auto
  show ?thesis using grav bound bound0 by (simp add: split)
qed

theorem PhysFalling_apex_split_witness:
  "Z (Velocity (snd (PhysFalling_JumpApex ConstructorConfig (FVector 0 0 304.8)
        (\<lparr>TimeTick = 0.5, RemainingTime = 0, Iterations = 1\<rparr>,
         ConstructorState\<lparr>MovementMode := MOVE_Falling, Velocity := FVector 0 0 (- 266.7)\<rparr>)))) = 0
   \<and> TimeTick (fst (PhysFalling_JumpApex ConstructorConfig (FVector 0 0 304.8)
        (\<lparr>TimeTick = 0.5, RemainingTime = 0, Iterations = 1\<rparr>,
         ConstructorState\<lparr>MovementMode := MOVE_Falling, Velocity := FVector 0 0 (- 266.7)\<rparr>)))
     = 304.8 / 1143
   \<and> RemainingTime (fst (PhysFalling_JumpApex ConstructorConfig (FVector 0 0 304.8)
        (\<lparr>TimeTick = 0.5, RemainingTime = 0, Iterations = 1\<rparr>,
         ConstructorState\<lparr>MovementMode := MOVE_Falling, Velocity := FVector 0 0 (- 266.7)\<rparr>)))
     = 0.5 - 304.8 / 1143"
  using PhysFalling_apex_split [where cfg = ConstructorConfig and OldVel = "FVector 0 0 304.8"
      and l = "\<lparr>TimeTick = 0.5, RemainingTime = 0, Iterations = 1\<rparr>"
      and s = "ConstructorState\<lparr>MovementMode := MOVE_Falling, Velocity := FVector 0 0 (- 266.7)\<rparr>"
      and steps = "[]" and ?s0.0 = ConstructorState and G = "- 1143"]
  by (simp add: ConstructorConfig_def ConstructorState_def FMath_IsNearlyZero_def
      SMALL_NUMBER_def)

section \<open>APBPlayerCharacter: the jump boost\<close>

text \<open>
  \<^verbatim>\<open>APBPlayerCharacter::OnJumped_Implementation\<close>. The members of the character it
  reads and writes (\<^verbatim>\<open>LastJumpBoostTime\<close>, \<^verbatim>\<open>bIsSprinting\<close>,
  \<^verbatim>\<open>bIsCrouched\<close>) are fields of the state, the console variables and the world time
  are answers of the environment.
\<close>

definition OnJumped_Implementation :: "PBEnv \<Rightarrow> PBConfig \<Rightarrow> PBState \<Rightarrow> PBState" where
  "OnJumped_Implementation env cfg s =
     (let JumpBoost = CVarJumpBoost env in
      if bOnLadder s then s
      else if TimeSeconds env \<ge> LastJumpBoostTime s + MaxJumpTime cfg \<and> JumpBoost \<noteq> 0 then
        (let s1 = s\<lparr>LastJumpBoostTime := TimeSeconds env\<rparr>;
             Facing = ActorForwardVector env;
             Input0 = Acceleration s1;
             Input = (if JumpBoost \<noteq> 1
                      then max (DotProduct (GetSafeNormal2D Input0)
                                                 (GetSafeNormal2D (Velocity s1))) 0 *\<^sub>R Input0
                      else Input0);
             ForwardSpeed = DotProduct Input Facing;
             SpeedBoostPerc = (if bIsSprinting s1 \<or> bIsCrouched s1 then 0.1 else 0.5);
             SpeedAddition0 = \<bar>ForwardSpeed * SpeedBoostPerc\<bar>;
             MaxBoostedSpeed = (GetMaxSpeed cfg s1 + GetMaxSpeed cfg s1) * SpeedBoostPerc;
             NewSpeed = SpeedAddition0 + Size2D (Velocity s1);
             SpeedAdditionNoClamp0 = SpeedAddition0;
             SpeedAddition1 = (if NewSpeed > MaxBoostedSpeed
                               then SpeedAddition0 - (NewSpeed - MaxBoostedSpeed)
                               else SpeedAddition0);
             bBackwards = (ForwardSpeed < - GetMaxAcceleration cfg * sin 0.6981);
             SpeedAddition = (if bBackwards then SpeedAddition1 * (- 1) else SpeedAddition1);
             SpeedAdditionNoClamp =
               (if bBackwards then SpeedAdditionNoClamp0 * (- 1) else SpeedAdditionNoClamp0);
             JumpBoostedVel0 = Velocity s1 + SpeedAddition *\<^sub>R Facing;
             JumpBoostedSizeSq0 = SizeSquared2D JumpBoostedVel0;
             JumpBoostedUnclampVel = Velocity s1 + SpeedAdditionNoClamp *\<^sub>R Facing;
             JumpBoostedUnclampSizeSq = SizeSquared2D JumpBoostedUnclampVel;
             bUnclamped = (CVarBunnyhop env \<noteq> 0 \<and> JumpBoostedUnclampSizeSq > JumpBoostedSizeSq0);
             JumpBoostedVel = (if bUnclamped then JumpBoostedUnclampVel else JumpBoostedVel0);
             JumpBoostedSizeSq =
               (if bUnclamped then JumpBoostedUnclampSizeSq else JumpBoostedSizeSq0)
         in if SizeSquared2D (Velocity s1) < JumpBoostedSizeSq
            then s1\<lparr>Velocity := JumpBoostedVel\<rparr>
            else s1)
      else s)"

lemma sin_06981_pos: "0 < sin (0.6981::real)"
proof -
  have "(0.6981::real) < 2" by simp
  then have "(0.6981::real) < pi" using pi_ge_two by (rule less_le_trans)
  then show ?thesis by (simp add: sin_gt_zero)
qed

text \<open>
  Claim C10. The jump boost of \<^verbatim>\<open>OnJumped_Implementation\<close> never decreases the
  horizontal speed: the boosted velocity is assigned only if its squared horizontal size
  strictly exceeds the current one, so after the call the horizontal speed (squared or
  not) is at least the one before, and the velocity is either untouched or strictly
  faster horizontally.
\<close>

theorem OnJumped_never_slows:
  fixes env cfg s
  defines "s' \<equiv> OnJumped_Implementation env cfg s"
  shows "SizeSquared2D (Velocity s) \<le> SizeSquared2D (Velocity s')
       \<and> Size2D (Velocity s) \<le> Size2D (Velocity s')
       \<and> (Velocity s' = Velocity s \<or> SizeSquared2D (Velocity s) < SizeSquared2D (Velocity s'))"
proof -
  have c: "Velocity s' = Velocity s \<or> SizeSquared2D (Velocity s) < SizeSquared2D (Velocity s')"
    unfolding s'_def OnJumped_Implementation_def Let_def by simp
  then have a: "SizeSquared2D (Velocity s) \<le> SizeSquared2D (Velocity s')" by auto
  then have b: "Size2D (Velocity s) \<le> Size2D (Velocity s')" by (simp add: Size2D_def)
  show ?thesis using a b c by simp
qed

theorem OnJumped_never_slows_witness:
  "Velocity (OnJumped_Implementation ExampleEnv ConstructorConfig
      (ConstructorState\<lparr>Velocity := FVector 100 0 0, Acceleration := FVector 857.25 0 0\<rparr>))
     = FVector 361.9 0 0
   \<and> Size2D (FVector 100 0 0) \<le> Size2D (FVector 361.9 0 0)"
  using OnJumped_never_slows [where env = ExampleEnv and cfg = ConstructorConfig
      and s = "ConstructorState\<lparr>Velocity := FVector 100 0 0, Acceleration := FVector 857.25 0 0\<rparr>"]
    sin_06981_pos
  by (simp add: OnJumped_Implementation_def Let_def ExampleEnv_def ConstructorConfig_def
      ConstructorState_def GetMaxSpeed_def GetMaxAcceleration_def IsCrouching_def
      DotProduct_def Size2D_axis SizeSquared2D_def FVector_eval)

end
